theory Spec2Isabelle
  imports Main "HOL-Library.AList"
begin

section \<open>The parsed command tree\<close>

text \<open>
  Modelled from the spec: the header that declares \<^verbatim>\<open>word_t\<close>, \<^verbatim>\<open>simple_command_t\<close>,
  \<^verbatim>\<open>command_t\<close> and the operator tags is not among the sources. The types below have the
  fields that \<^verbatim>\<open>cmd.c\<close> reads, with the meaning the spec's data model gives them. A
  \<^verbatim>\<open>word_t\<close> is one fragment of a word: its text, whether the text names an environment
  variable, the next fragment of the same word and the next word of the list. A null
  pointer is \<open>None\<close>; a C string is a \<open>string\<close> without the character 0.
\<close>

datatype word_t = Word_t (string: string) (expand: bool)
  (next_part: "word_t option") (next_word: "word_t option")

record simple_command_t =
  verb :: "word_t option"
  params :: "word_t option"
  in' :: "word_t option"
  out :: "word_t option"
  err :: "word_t option"
  io_flags :: int

text \<open>
  Modelled from the spec: the header declaring the redirection flags is not among the
  sources. The spec gives a simple command one append-versus-truncate flag for standard
  output and one for standard error; \<^verbatim>\<open>cmd.c\<close> compares \<^verbatim>\<open>io_flags\<close> with the two
  constants by equality. The numbers are the customary bit values; the theorems below use
  only that the constants are pairwise different.
\<close>

definition IO_REGULAR :: int where "IO_REGULAR = 0"
definition IO_OUT_APPEND :: int where "IO_OUT_APPEND = 1"
definition IO_ERR_APPEND :: int where "IO_ERR_APPEND = 2"

text \<open>
  Modelled from the spec: the operator tags are the ones \<^verbatim>\<open>parse_command\<close> names (the
  spec's SEQUENCE, PARALLEL, PIPE, IF_ZERO and IF_NONZERO, and the tag of a leaf);
  \<open>OP_OTHER\<close> stands for every tag value that reaches the \<^verbatim>\<open>default\<close> label of the
  switch. In a node, \<^verbatim>\<open>cmd1\<close> and \<^verbatim>\<open>cmd2\<close> are the children and \<^verbatim>\<open>scmd\<close> the simple
  command of a leaf.
\<close>

datatype operator_t = OP_NONE | OP_SEQUENTIAL | OP_PARALLEL | OP_CONDITIONAL_NZERO
  | OP_CONDITIONAL_ZERO | OP_PIPE | OP_OTHER

datatype command_t = Command_t (cmd1: "command_t option") (cmd2: "command_t option")
  (op: operator_t) (scmd: "simple_command_t option")

text \<open>
  Modelled from the spec: the macro \<^verbatim>\<open>SHELL_EXIT\<close> comes from a header that is not among
  the sources; the spec calls it a dedicated shell-exit status returned for an unrecognised
  tag. No theorem below depends on its value.
\<close>

definition SHELL_EXIT :: int where "SHELL_EXIT = - 100"

section \<open>The process and the operating system\<close>

text \<open>
  What a process owns and \<^verbatim>\<open>cmd.c\<close> changes: the environment (\<^verbatim>\<open>getenv\<close>,
  \<^verbatim>\<open>setenv\<close>), the working directory (\<^verbatim>\<open>chdir\<close>), the descriptor table (\<^verbatim>\<open>open\<close>,
  \<^verbatim>\<open>dup\<close>, \<^verbatim>\<open>dup2\<close>, \<^verbatim>\<open>close\<close>, \<^verbatim>\<open>pipe\<close>), and the record of the children it has
  created and waited for (\<^verbatim>\<open>fork\<close>, \<^verbatim>\<open>waitpid\<close>).
\<close>

datatype oflags = O_RDONLY | O_WRONLY_CREAT_APPEND | O_WRONLY_CREAT_TRUNC

datatype ofile = Inherited nat | File string oflags | Pipe_read | Pipe_write

datatype event = Fork int | Waitpid int

record proc =
  env :: "(string \<times> string) list"
  cwd :: string
  fds :: "(int \<times> ofile) list"
  trace :: "event list"

text \<open>
  Everything outside the process is a parameter: whether \<^verbatim>\<open>fork\<close> succeeds, where
  \<^verbatim>\<open>chdir\<close> leads (or that it fails), whether \<^verbatim>\<open>open\<close> succeeds, what becomes of a
  program started by \<^verbatim>\<open>execvp\<close> (\<open>None\<close>: the call fails and returns; \<open>Some w\<close>: the
  program runs, terminates, and \<^verbatim>\<open>waitpid\<close> reports \<open>w\<close> to the parent), and the contents
  of a local variable that is read before it was written. The file system is not modelled
  beyond these answers, external programs are taken to terminate, and the descriptor table
  and the heap are taken to be large enough for \<^verbatim>\<open>dup\<close>, \<^verbatim>\<open>pipe\<close>, \<^verbatim>\<open>malloc\<close> and
  \<^verbatim>\<open>calloc\<close> to succeed. Text written by \<^verbatim>\<open>printf\<close> and \<^verbatim>\<open>perror\<close> is not recorded.
\<close>

record os =
  os_fork :: "proc \<Rightarrow> bool"
  os_chdir :: "proc \<Rightarrow> string \<Rightarrow> string option"
  os_open :: "proc \<Rightarrow> string \<Rightarrow> oflags \<Rightarrow> bool"
  os_execvp :: "string \<Rightarrow> string list \<Rightarrow> proc \<Rightarrow> int option"
  os_uninit :: "string \<Rightarrow> int"

text \<open>
  The outcome of running a piece of code in a process: it returns a value and leaves the
  process in a new state; or the process ends (\<^verbatim>\<open>exit\<close>, or a program started by
  \<^verbatim>\<open>execvp\<close> ends), and the number is the wait status its parent receives; or the code
  leaves the behaviour defined by C (it writes past a buffer).
\<close>

datatype 'a result = Returned 'a proc | Terminated int | Undefined

text \<open>
  The wait status that \<^verbatim>\<open>waitpid\<close> stores on Linux for a process that ended with exit
  status \<open>ret\<close> (0 to 255) and signal part \<open>sig\<close>: the macro \<^verbatim>\<open>W_EXITCODE\<close> of the C
  library, \<^verbatim>\<open>(ret) << 8 | (sig)\<close>. The exit status of a process that calls
  \<^verbatim>\<open>exit(n)\<close> is \<open>n mod 256\<close>.
\<close>

definition W_EXITCODE :: "int \<Rightarrow> int \<Rightarrow> int" where
  "W_EXITCODE ret sig = ret * 256 + sig"

definition getenv :: "string \<Rightarrow> proc \<Rightarrow> string option" where
  "getenv name p = map_of (env p) name"

text \<open>\<^verbatim>\<open>setenv(name, value, 1)\<close> fails for an empty name and for a name with an \<open>=\<close>.\<close>

definition setenv :: "string \<Rightarrow> string \<Rightarrow> proc \<Rightarrow> int \<times> proc" where
  "setenv name val p =
     (if name = [] \<or> CHR ''='' \<in> set name then (- 1, p)
      else (0, p\<lparr>env := AList.update name val (env p)\<rparr>))"

definition chdir :: "os \<Rightarrow> string option \<Rightarrow> proc \<Rightarrow> int \<times> proc" where
  "chdir sys path p =
     (case path of
        None \<Rightarrow> (- 1, p)
      | Some d \<Rightarrow>
          (case os_chdir sys p d of
             None \<Rightarrow> (- 1, p)
           | Some d' \<Rightarrow> (0, p\<lparr>cwd := d'\<rparr>)))"

text \<open>The lowest descriptor number that is not open.\<close>

definition lowest_fd :: "(int \<times> ofile) list \<Rightarrow> int" where
  "lowest_fd t =
     (case find (\<lambda>n. map_of t n = None) (map int [0..<length t]) of
        Some n \<Rightarrow> n
      | None \<Rightarrow> int (length t))"

definition sys_open :: "os \<Rightarrow> string \<Rightarrow> oflags \<Rightarrow> proc \<Rightarrow> int \<times> proc" where
  "sys_open sys path fl p =
     (if os_open sys p path fl
      then (let n = lowest_fd (fds p) in (n, p\<lparr>fds := AList.update n (File path fl) (fds p)\<rparr>))
      else (- 1, p))"

definition sys_dup :: "int \<Rightarrow> proc \<Rightarrow> int \<times> proc" where
  "sys_dup fd p =
     (case map_of (fds p) fd of
        None \<Rightarrow> (- 1, p)
      | Some f \<Rightarrow> (let n = lowest_fd (fds p) in (n, p\<lparr>fds := AList.update n f (fds p)\<rparr>)))"

text \<open>The callers discard what \<^verbatim>\<open>dup2\<close> and \<^verbatim>\<open>close\<close> return; only the state is kept.\<close>

definition sys_dup2 :: "int \<Rightarrow> int \<Rightarrow> proc \<Rightarrow> proc" where
  "sys_dup2 oldfd newfd p =
     (case map_of (fds p) oldfd of
        None \<Rightarrow> p
      | Some f \<Rightarrow> (if newfd < 0 then p else p\<lparr>fds := AList.update newfd f (fds p)\<rparr>))"

definition sys_close :: "int \<Rightarrow> proc \<Rightarrow> proc" where
  "sys_close fd p = p\<lparr>fds := AList.delete fd (fds p)\<rparr>"

text \<open>\<^verbatim>\<open>pipe\<close> fills the array with the read end and the write end, in this order.\<close>

definition sys_pipe :: "proc \<Rightarrow> int list \<times> proc" where
  "sys_pipe p =
     (let r = lowest_fd (fds p);
          p1 = p\<lparr>fds := AList.update r Pipe_read (fds p)\<rparr>;
          w = lowest_fd (fds p1);
          p2 = p1\<lparr>fds := AList.update w Pipe_write (fds p1)\<rparr>
      in ([r, w], p2))"

text \<open>
  A successful \<^verbatim>\<open>fork\<close> is recorded in the parent under the number of the child, counted
  from 1 in the order of creation; the child starts as a copy of the parent that has
  created no children itself.
\<close>

definition is_Fork :: "event \<Rightarrow> bool" where
  "is_Fork e = (case e of Fork _ \<Rightarrow> True | Waitpid _ \<Rightarrow> False)"

definition fork :: "os \<Rightarrow> proc \<Rightarrow> (int \<times> proc) option" where
  "fork sys p =
     (if os_fork sys p
      then (let pid = 1 + int (length (filter is_Fork (trace p)))
            in Some (pid, p\<lparr>trace := trace p @ [Fork pid]\<rparr>))
      else None)"

definition child :: "proc \<Rightarrow> proc" where
  "child p = p\<lparr>trace := []\<rparr>"

definition waitpid :: "int \<Rightarrow> proc \<Rightarrow> proc" where
  "waitpid pid p = p\<lparr>trace := trace p @ [Waitpid pid]\<rparr>"

section \<open>The functions of cmd.c\<close>

definition READ :: nat where "READ = 0"
definition WRITE :: nat where "WRITE = 1"
definition STDIN_FILENO :: int where "STDIN_FILENO = 0"
definition STDOUT_FILENO :: int where "STDOUT_FILENO = 1"
definition STDERR_FILENO :: int where "STDERR_FILENO = 2"

definition shell_cd :: "os \<Rightarrow> word_t option \<Rightarrow> proc \<Rightarrow> bool \<times> proc" where
  "shell_cd sys dir p =
     (case dir of
        None \<Rightarrow>
          (let (r, p') = chdir sys (getenv ''HOME'' p) p
           in if r \<noteq> 0 then (False, p') else (True, p'))
      | Some d \<Rightarrow>
          (let (r, p') = chdir sys (Some (string d)) p
           in if r \<noteq> 0 then (False, p') else (True, p')))"

definition shell_exit :: "int \<Rightarrow> 'a result" where
  "shell_exit status = Terminated (W_EXITCODE (status mod 256) 0)"

text \<open>
  The loop that appears three times in \<^verbatim>\<open>cmd.c\<close> (in \<^verbatim>\<open>getFile\<close>, in
  \<^verbatim>\<open>getParameters\<close> and in \<^verbatim>\<open>parse_simple\<close>): walk the fragments of a word and
  \<^verbatim>\<open>strcat\<close> each one, or the value of the variable it names, to a buffer of 100 bytes.
  The buffer holds at most 99 characters before its terminator; \<open>None\<close> is a write past
  its end.
\<close>

definition strcat :: "string \<Rightarrow> string \<Rightarrow> string option" where
  "strcat buf s = (if length buf + length s < 100 then Some (buf @ s) else None)"

fun strcat_parts :: "proc \<Rightarrow> word_t option \<Rightarrow> string \<Rightarrow> string option" where
  "strcat_parts p None buf = Some buf"
| "strcat_parts p (Some (Word_t str ex np nw)) buf =
     (case (if ex
            then (case getenv str p of
                    Some valoare \<Rightarrow> strcat buf valoare
                  | None \<Rightarrow> strcat buf [])
            else strcat buf str) of
        None \<Rightarrow> None
      | Some buf' \<Rightarrow> strcat_parts p np buf')"

definition getFile :: "proc \<Rightarrow> word_t option \<Rightarrow> string option" where
  "getFile p w = strcat_parts p w []"

text \<open>
  The three blocks of \<^verbatim>\<open>saveAllAndSwitch\<close>, one per stream. Each yields the saved
  duplicate and the new descriptor; where the redirection is absent both variables keep
  whatever they held.
\<close>

definition switch_stdin ::
  "os \<Rightarrow> simple_command_t \<Rightarrow> proc \<Rightarrow> ((int \<times> int) \<times> proc) option" where
  "switch_stdin sys s p =
     (if in' s \<noteq> None
      then (let (saved_stdin, p1) = sys_dup STDIN_FILENO p
            in case getFile p1 (in' s) of
                 None \<Rightarrow> None
               | Some file \<Rightarrow>
                   (let (fd_in, p2) = sys_open sys file O_RDONLY p1
                    in Some ((saved_stdin, fd_in), sys_dup2 fd_in STDIN_FILENO p2)))
      else Some ((os_uninit sys ''saved_stdin'', os_uninit sys ''fd_in''), p))"

definition switch_stdout ::
  "os \<Rightarrow> simple_command_t \<Rightarrow> proc \<Rightarrow> ((int \<times> int) \<times> proc) option" where
  "switch_stdout sys s p =
     (if out s \<noteq> None
      then (let (saved_stdout, p1) = sys_dup STDOUT_FILENO p
            in if io_flags s = IO_OUT_APPEND \<or>
                  (err s \<noteq> None \<and> string (the (out s)) = string (the (err s)))
               then (case getFile p1 (out s) of
                       None \<Rightarrow> None
                     | Some file \<Rightarrow>
                         (let (fd_out, p2) = sys_open sys file O_WRONLY_CREAT_APPEND p1
                          in Some ((saved_stdout, fd_out), sys_dup2 fd_out STDOUT_FILENO p2)))
               else (case getFile p1 (out s) of
                       None \<Rightarrow> None
                     | Some file \<Rightarrow>
                         (let (fd_out, p2) = sys_open sys file O_WRONLY_CREAT_TRUNC p1
                          in Some ((saved_stdout, fd_out), sys_dup2 fd_out STDOUT_FILENO p2))))
      else Some ((os_uninit sys ''saved_stdout'', os_uninit sys ''fd_out''), p))"

definition switch_stderr ::
  "os \<Rightarrow> simple_command_t \<Rightarrow> proc \<Rightarrow> ((int \<times> int) \<times> proc) option" where
  "switch_stderr sys s p =
     (if err s \<noteq> None
      then (let (saved_stderr, p1) = sys_dup STDERR_FILENO p
            in if io_flags s = IO_ERR_APPEND
               then (case getFile p1 (err s) of
                       None \<Rightarrow> None
                     | Some file \<Rightarrow>
                         (let (fd_err, p2) = sys_open sys file O_WRONLY_CREAT_APPEND p1
                          in Some ((saved_stderr, fd_err), sys_dup2 fd_err STDERR_FILENO p2)))
               else (case getFile p1 (err s) of
                       None \<Rightarrow> None
                     | Some file \<Rightarrow>
                         (let (fd_err, p2) = sys_open sys file O_WRONLY_CREAT_TRUNC p1
                          in Some ((saved_stderr, fd_err), sys_dup2 fd_err STDERR_FILENO p2))))
      else Some ((os_uninit sys ''saved_stderr'', os_uninit sys ''fd_err''), p))"

definition saveAllAndSwitch ::
  "os \<Rightarrow> simple_command_t \<Rightarrow> proc \<Rightarrow> (int list \<times> proc) option" where
  "saveAllAndSwitch sys s p =
     (case switch_stdin sys s p of
        None \<Rightarrow> None
      | Some ((saved_stdin, fd_in), p1) \<Rightarrow>
          (case switch_stdout sys s p1 of
             None \<Rightarrow> None
           | Some ((saved_stdout, fd_out), p2) \<Rightarrow>
               (case switch_stderr sys s p2 of
                  None \<Rightarrow> None
                | Some ((saved_stderr, fd_err), p3) \<Rightarrow>
                    Some ([saved_stdin, saved_stdout, saved_stderr, fd_in, fd_out, fd_err], p3))))"

definition switchAndClose :: "int list \<Rightarrow> simple_command_t \<Rightarrow> proc \<Rightarrow> proc" where
  "switchAndClose saved s p =
     (let p1 = (if in' s \<noteq> None then sys_dup2 (saved ! 0) STDIN_FILENO p else p);
          p2 = (if out s \<noteq> None then sys_dup2 (saved ! 1) STDOUT_FILENO p1 else p1);
          p3 = (if err s \<noteq> None then sys_dup2 (saved ! 2) STDERR_FILENO p2 else p2)
      in sys_close (saved ! 5) (sys_close (saved ! 4) (sys_close (saved ! 3) p3)))"

text \<open>
  \<^verbatim>\<open>getParameters\<close>: the argument vector has ten slots; slot 0 takes the text of the
  verb's first fragment, each parameter word takes the next slot, and the null terminator
  the one after. \<open>None\<close> is a write past the vector or past a value's buffer.
\<close>

fun param_values :: "proc \<Rightarrow> word_t option \<Rightarrow> string list option" where
  "param_values p None = Some []"
| "param_values p (Some (Word_t str ex np nw)) =
     (case strcat_parts p (Some (Word_t str ex np nw)) [] of
        None \<Rightarrow> None
      | Some val \<Rightarrow>
          (case param_values p nw of
             None \<Rightarrow> None
           | Some vals \<Rightarrow> Some (val # vals)))"

definition getParameters :: "proc \<Rightarrow> simple_command_t \<Rightarrow> string list option" where
  "getParameters p s =
     (case verb s of
        None \<Rightarrow> None
      | Some v \<Rightarrow>
          (case param_values p (params s) of
             None \<Rightarrow> None
           | Some vals \<Rightarrow> (if length vals + 1 < 10 then Some (string v # vals) else None)))"

text \<open>
  The branch \<^verbatim>\<open>pid == 0\<close> of \<^verbatim>\<open>parse_simple\<close>, run in the new process. It never
  returns to a caller: the result is the wait status of the process, or \<open>None\<close> if it
  wrote past a buffer.
\<close>

definition parse_simple_child :: "os \<Rightarrow> simple_command_t \<Rightarrow> word_t \<Rightarrow> proc \<Rightarrow> int option" where
  "parse_simple_child sys s v p =
     (case (if params s \<noteq> None then getParameters p s else Some [string v]) of
        None \<Rightarrow> None
      | Some argv \<Rightarrow>
          (case saveAllAndSwitch sys s p of
             None \<Rightarrow> None
           | Some (saved, p1) \<Rightarrow>
               (if string v = ''cd''
                then (let (r, p2) = shell_cd sys (params s) p1;
                          p3 = switchAndClose saved s p2
                      in Some (W_EXITCODE 0 0))
                else (case os_execvp sys (string v) argv p1 of
                        None \<Rightarrow> Some (W_EXITCODE 1 0)
                      | Some w \<Rightarrow> Some w))))"

definition is_assignment :: "word_t \<Rightarrow> bool" where
  "is_assignment v =
     (case next_part v of
        None \<Rightarrow> False
      | Some np \<Rightarrow> string np = ''='')"

definition parse_simple ::
  "os \<Rightarrow> simple_command_t option \<Rightarrow> int \<Rightarrow> command_t option \<Rightarrow> proc \<Rightarrow> int result" where
  "parse_simple sys s level father p =
     (case s of
        None \<Rightarrow> Returned 1 p
      | Some sc \<Rightarrow>
          (case verb sc of
             None \<Rightarrow> Returned 1 p
           | Some v \<Rightarrow>
               (if is_assignment v
                then (case strcat_parts p (next_part (the (next_part v))) [] of
                        None \<Rightarrow> Undefined
                      | Some val \<Rightarrow> Returned 0 (snd (setenv (string v) val p)))
                else if string v = ''exit'' \<or> string v = ''quit'' then shell_exit 0
                else if string v = ''true'' then Returned 0 p
                else if string v = ''false'' then Returned 1 p
                else (case fork sys p of
                        None \<Rightarrow> Returned (- 1) p
                      | Some (pid, p1) \<Rightarrow>
                          (case parse_simple_child sys sc v (child p) of
                             None \<Rightarrow> Undefined
                           | Some status \<Rightarrow>
                               (let p2 = waitpid pid p1;
                                    (cd_return, p3) =
                                      (if string v = ''cd'' then shell_cd sys (params sc) p2
                                       else (True, p2))
                                in if \<not> cd_return then Returned 1 p3
                                   else Returned status p3))))))"

text \<open>
  A child created by an operator evaluates a subtree and passes the status to
  \<^verbatim>\<open>shell_exit\<close>; the parent's \<^verbatim>\<open>waitpid\<close> on it yields the wait status. Waiting for a
  child whose behaviour is undefined is undefined.
\<close>

definition child_exit :: "int result \<Rightarrow> int option" where
  "child_exit r =
     (case r of
        Returned status p \<Rightarrow> Some (W_EXITCODE (status mod 256) 0)
      | Terminated w \<Rightarrow> Some w
      | Undefined \<Rightarrow> None)"

text \<open>
  The test made after the left branch of a conditional:
  \<^verbatim>\<open>if (c && c->cmd1 && c->cmd1->scmd && c->cmd1->scmd->verb != NULL &&
  strcmp(c->cmd1->scmd->verb->string, "cd") == 0) shell_cd(c->cmd1->scmd->params);\<close>
\<close>

definition cd_of_cmd1 :: "os \<Rightarrow> command_t \<Rightarrow> proc \<Rightarrow> proc" where
  "cd_of_cmd1 sys c p =
     (case cmd1 c of
        None \<Rightarrow> p
      | Some c1 \<Rightarrow>
          (case scmd c1 of
             None \<Rightarrow> p
           | Some s \<Rightarrow>
               (case verb s of
                  None \<Rightarrow> p
                | Some v \<Rightarrow> (if string v = ''cd'' then snd (shell_cd sys (params s) p) else p))))"

text \<open>
  The dispatcher and the operators. The parameters \<^verbatim>\<open>cmd1\<close> and \<^verbatim>\<open>cmd2\<close> of
  \<^verbatim>\<open>run_in_parallel\<close> and \<^verbatim>\<open>run_on_pipe\<close> are written \<open>c1\<close> and \<open>c2\<close>. The two children
  of a parallel node or of a pipe run at the same time, each on its own copy of the state
  of the parent; the parent learns nothing of them but their wait statuses, so each child
  is evaluated by itself.
\<close>

function
  parse_command ::
    "os \<Rightarrow> command_t option \<Rightarrow> int \<Rightarrow> command_t option \<Rightarrow> proc \<Rightarrow> int result"
and run_in_parallel ::
    "os \<Rightarrow> command_t option \<Rightarrow> command_t option \<Rightarrow> int \<Rightarrow> command_t option \<Rightarrow> proc
       \<Rightarrow> bool result"
and run_on_pipe ::
    "os \<Rightarrow> command_t option \<Rightarrow> command_t option \<Rightarrow> int \<Rightarrow> command_t option \<Rightarrow> proc
       \<Rightarrow> bool result"
and Conditional_Zero ::
    "os \<Rightarrow> command_t \<Rightarrow> int \<Rightarrow> command_t option \<Rightarrow> proc \<Rightarrow> int result"
and Conditional_NZero ::
    "os \<Rightarrow> command_t \<Rightarrow> int \<Rightarrow> command_t option \<Rightarrow> proc \<Rightarrow> int result"
where
  "parse_command sys None level father p = Returned 0 p"
| "parse_command sys (Some (Command_t c1 c2 opr sc)) level father p =
     (if opr = OP_NONE then parse_simple sys sc level father p
      else (case opr of
              OP_SEQUENTIAL \<Rightarrow>
                (case parse_command sys c1 level father p of
                   Returned status1 p1 \<Rightarrow>
                     (case parse_command sys c2 level father p1 of
                        Returned status2 p2 \<Rightarrow> Returned 0 p2
                      | Terminated w \<Rightarrow> Terminated w
                      | Undefined \<Rightarrow> Undefined)
                 | Terminated w \<Rightarrow> Terminated w
                 | Undefined \<Rightarrow> Undefined)
            | OP_PARALLEL \<Rightarrow>
                (case run_in_parallel sys c1 c2 level father p of
                   Returned b p' \<Rightarrow> Returned 0 p'
                 | Terminated w \<Rightarrow> Terminated w
                 | Undefined \<Rightarrow> Undefined)
            | OP_CONDITIONAL_NZERO \<Rightarrow>
                Conditional_NZero sys (Command_t c1 c2 opr sc) level father p
            | OP_CONDITIONAL_ZERO \<Rightarrow>
                Conditional_Zero sys (Command_t c1 c2 opr sc) level father p
            | OP_PIPE \<Rightarrow>
                (case run_on_pipe sys c1 c2 level father p of
                   Returned b p' \<Rightarrow> Returned (if b then 1 else 0) p'
                 | Terminated w \<Rightarrow> Terminated w
                 | Undefined \<Rightarrow> Undefined)
            | _ \<Rightarrow> Returned SHELL_EXIT p))"
| "run_in_parallel sys c1 c2 level father p =
     (case fork sys p of
        None \<Rightarrow> Returned True p
      | Some (pid1, p1) \<Rightarrow>
          (case fork sys p1 of
             None \<Rightarrow> Returned True p1
           | Some (pid2, p2) \<Rightarrow>
               (case child_exit (parse_command sys c1 level father (child p)) of
                  None \<Rightarrow> Undefined
                | Some status1 \<Rightarrow>
                    (case child_exit (parse_command sys c2 level father (child p1)) of
                       None \<Rightarrow> Undefined
                     | Some status2 \<Rightarrow> Returned True (waitpid pid2 (waitpid pid1 p2))))))"
| "run_on_pipe sys c1 c2 level father p =
     (let (pipefd, p0) = sys_pipe p
      in case fork sys p0 of
           None \<Rightarrow> Returned (os_uninit sys ''status2'' \<noteq> 0) p0
         | Some (pid1, p1) \<Rightarrow>
             (case fork sys p1 of
                None \<Rightarrow> Returned (os_uninit sys ''status2'' \<noteq> 0) p1
              | Some (pid2, p2) \<Rightarrow>
                  (let q1 = sys_close (pipefd ! WRITE)
                              (sys_dup2 (pipefd ! WRITE) STDOUT_FILENO
                                (sys_close (pipefd ! READ) (child p0)));
                       q2 = sys_close (pipefd ! READ)
                              (sys_dup2 (pipefd ! READ) STDIN_FILENO
                                (sys_close (pipefd ! WRITE) (child p1)));
                       p3 = sys_close (pipefd ! WRITE) (sys_close (pipefd ! READ) p2)
                   in case child_exit (parse_command sys c1 level father q1) of
                        None \<Rightarrow> Undefined
                      | Some status1 \<Rightarrow>
                          (case child_exit (parse_command sys c2 level father q2) of
                             None \<Rightarrow> Undefined
                           | Some status2 \<Rightarrow>
                               Returned (status2 \<noteq> 0) (waitpid pid2 (waitpid pid1 p3))))))"
| "Conditional_Zero sys (Command_t c1 c2 opr sc) level father p =
     (if sc = None
      then (case parse_command sys c1 level father p of
              Returned status p1 \<Rightarrow>
                (let p2 = cd_of_cmd1 sys (Command_t c1 c2 opr sc) p1
                 in if status = 0 then parse_command sys c2 level father p2
                    else Returned status p2)
            | Terminated w \<Rightarrow> Terminated w
            | Undefined \<Rightarrow> Undefined)
      else (case fork sys p of
              None \<Rightarrow> Returned 0 p
            | Some (pid, p') \<Rightarrow>
                (case child_exit
                        (case parse_command sys c1 level father (child p) of
                           Returned status q1 \<Rightarrow>
                             (let q2 = cd_of_cmd1 sys (Command_t c1 c2 opr sc) q1
                              in if status = 0 then parse_command sys c2 level father q2
                                 else Returned status q2)
                         | Terminated w \<Rightarrow> Terminated w
                         | Undefined \<Rightarrow> Undefined) of
                   None \<Rightarrow> Undefined
                 | Some status \<Rightarrow>
                     Returned status
                       (cd_of_cmd1 sys (Command_t c1 c2 opr sc) (waitpid pid p')))))"
| "Conditional_NZero sys (Command_t c1 c2 opr sc) level father p =
     (if sc = None
      then (case parse_command sys c1 level father p of
              Returned status p1 \<Rightarrow>
                (let p2 = cd_of_cmd1 sys (Command_t c1 c2 opr sc) p1
                 in if status \<noteq> 0 then parse_command sys c2 level father p2
                    else Returned status p2)
            | Terminated w \<Rightarrow> Terminated w
            | Undefined \<Rightarrow> Undefined)
      else (case fork sys p of
              None \<Rightarrow> Returned 0 p
            | Some (pid, p') \<Rightarrow>
                (case child_exit
                        (case parse_command sys c1 level father (child p) of
                           Returned status q1 \<Rightarrow>
                             (let q2 = cd_of_cmd1 sys (Command_t c1 c2 opr sc) q1
                              in if status \<noteq> 0 then parse_command sys c2 level father q2
                                 else Returned status q2)
                         | Terminated w \<Rightarrow> Terminated w
                         | Undefined \<Rightarrow> Undefined) of
                   None \<Rightarrow> Undefined
                 | Some status \<Rightarrow> Returned status (waitpid pid p'))))"
  by pat_completeness auto

termination
  by (relation "measure (\<lambda>x. case x of
      Inl (Inl (sys, c, level, father, p)) \<Rightarrow> 2 * size_option size c
    | Inl (Inr (sys, c1, c2, level, father, p)) \<Rightarrow>
        2 * (size_option size c1 + size_option size c2) + 1
    | Inr (Inl (sys, c1, c2, level, father, p)) \<Rightarrow>
        2 * (size_option size c1 + size_option size c2) + 1
    | Inr (Inr (Inl (sys, c, level, father, p))) \<Rightarrow> 2 * size c + 1
    | Inr (Inr (Inr (sys, c, level, father, p))) \<Rightarrow> 2 * size c + 1)") auto

section \<open>The word resolver of the specification\<close>

text \<open>
  Following the spec's words: a word is an ordered sequence of fragments, each a literal
  string or the name of a variable; resolving a word walks the fragments in order, appends
  the value of the environment variable for a reference (nothing when it is unset) and the
  text itself for a literal.
\<close>

fun fragments :: "word_t option \<Rightarrow> (string \<times> bool) list" where
  "fragments None = []"
| "fragments (Some (Word_t str ex np nw)) = (str, ex) # fragments np"

definition resolve :: "(string \<times> string) list \<Rightarrow> (string \<times> bool) list \<Rightarrow> string" where
  "resolve e frags =
     concat (map (\<lambda>(str, ex). if ex then (case map_of e str of Some v \<Rightarrow> v | None \<Rightarrow> [])
                              else str) frags)"

section \<open>Example inputs\<close>

text \<open>
  A word of one literal fragment, a simple command without redirections, and the leaf node
  that wraps a simple command.
\<close>

definition lit :: "string \<Rightarrow> word_t" where
  "lit str = Word_t str False None None"

definition simple :: "string \<Rightarrow> word_t option \<Rightarrow> simple_command_t" where
  "simple v ps =
     \<lparr>verb = Some (lit v), params = ps, in' = None, out = None, err = None,
      io_flags = IO_REGULAR\<rparr>"

definition leaf :: "simple_command_t \<Rightarrow> command_t option" where
  "leaf s = Some (Command_t None None OP_NONE (Some s))"

text \<open>
  The word \<^verbatim>\<open>NAME=text\<close> as the parser delivers it: the name, a fragment \<^verbatim>\<open>=\<close>, the
  text.
\<close>

definition assignment :: "string \<Rightarrow> string \<Rightarrow> simple_command_t" where
  "assignment name txt =
     \<lparr>verb = Some (Word_t name False (Some (Word_t ''='' False (Some (lit txt)) None)) None),
      params = None, in' = None, out = None, err = None, io_flags = IO_REGULAR\<rparr>"

text \<open>
  A system in which \<^verbatim>\<open>fork\<close> and \<^verbatim>\<open>open\<close> succeed, the directories \<^verbatim>\<open>/tmp\<close>
  and \<^verbatim>\<open>/home\<close> exist, the program \<^verbatim>\<open>ls\<close> runs and exits with 0, the program
  \<^verbatim>\<open>killme\<close> runs and is ended by signal 9 (the wait status of such a process is 9), and
  no other program can be started; and a process with the three standard streams open.
\<close>

definition sys0 :: os where
  "sys0 =
     \<lparr>os_fork = (\<lambda>p. True),
      os_chdir = (\<lambda>p d. if d = ''/tmp'' \<or> d = ''/home'' then Some d else None),
      os_open = (\<lambda>p path fl. True),
      os_execvp = (\<lambda>file argv p. if file = ''ls'' then Some 0
                                 else if file = ''killme'' then Some 9 else None),
      os_uninit = (\<lambda>name. - 1)\<rparr>"

definition proc0 :: proc where
  "proc0 =
     \<lparr>env = [(''HOME'', ''/home'')], cwd = ''/'',
      fds = [(0, Inherited 0), (1, Inherited 1), (2, Inherited 2)], trace = []\<rparr>"


text \<open>A \<^verbatim>\<open>cd\<close> with all three standard streams redirected.\<close>

definition redirected :: simple_command_t where
  "redirected =
     \<lparr>verb = Some (lit ''cd''), params = Some (lit ''/tmp''), in' = Some (lit ''a''),
      out = Some (lit ''b''), err = Some (lit ''c''), io_flags = IO_REGULAR\<rparr>"

text \<open>A word of two fragments: the literal \<^verbatim>\<open>/tmp\<close> followed by the variable \<^verbatim>\<open>HOME\<close>.\<close>

definition tmp_home :: word_t where
  "tmp_home = Word_t ''/tmp'' False (Some (Word_t ''HOME'' True None None)) None"

section \<open>Resolving words\<close>

text \<open>
  The concatenation loop computes the resolver of the specification as long as the result
  fits into the buffer.
\<close>

lemma strcat_parts_resolve:
  "length buf < 100 \<Longrightarrow> strcat_parts p w buf =
     (if length buf + length (resolve (env p) (fragments w)) < 100
      then Some (buf @ resolve (env p) (fragments w)) else None)"
  by (induction p w buf rule: strcat_parts.induct)
     (auto simp: strcat_def getenv_def resolve_def split: option.splits)

lemma getFile_resolve:
  "getFile p w =
     (if length (resolve (env p) (fragments w)) < 100
      then Some (resolve (env p) (fragments w)) else None)"
  by (simp add: getFile_def strcat_parts_resolve)

section \<open>The descriptor table\<close>

text \<open>The descriptor handed out by \<^verbatim>\<open>open\<close>, \<^verbatim>\<open>dup\<close> and \<^verbatim>\<open>pipe\<close> is not in use.\<close>

lemma lowest_fd_free: "map_of t (lowest_fd t) = None"
proof (cases "find (\<lambda>n. map_of t n = None) (map int [0..<length t])")
  case (Some n)
  then have "map_of t n = None"
    by (auto simp: find_Some_iff)
  then show ?thesis
    by (simp add: lowest_fd_def Some)
next
  case None
  then have "\<forall>i<length t. map_of t (int i) \<noteq> None"
    by (auto simp: find_None_iff)
  then have sub: "int ` {0..<length t} \<subseteq> fst ` set t"
    by (auto simp: map_of_eq_None_iff)
  have "card (fst ` set t) \<le> length t"
    by (metis card_image_le card_length le_trans List.finite_set)
  moreover have "card (int ` {0..<length t}) = length t"
    by (simp add: card_image)
  ultimately have "int ` {0..<length t} = fst ` set t"
    using sub by (intro card_seteq) auto
  moreover have "int (length t) \<notin> int ` {0..<length t}"
    by auto
  ultimately have "int (length t) \<notin> fst ` set t"
    by simp
  moreover have "lowest_fd t = int (length t)"
    by (simp add: lowest_fd_def None)
  ultimately show ?thesis
    by (simp add: map_of_eq_None_iff)
qed

lemma sys_dup_env [simp]: "env (snd (sys_dup fd p)) = env p"
  by (simp add: sys_dup_def Let_def split: option.splits)

lemma sys_open_env [simp]: "env (snd (sys_open sys path fl p)) = env p"
  by (simp add: sys_open_def Let_def)

lemma sys_dup2_env [simp]: "env (sys_dup2 a b p) = env p"
  by (simp add: sys_dup2_def split: option.splits)

lemma sys_dup_keeps:
  "map_of (fds p) k = Some f \<Longrightarrow> map_of (fds (snd (sys_dup fd p))) k = Some f"
  using lowest_fd_free [of "fds p"]
  by (auto simp: sys_dup_def Let_def update_conv' split: option.splits)

lemma sys_open_keeps:
  "map_of (fds p) k = Some f \<Longrightarrow> map_of (fds (snd (sys_open sys path fl p))) k = Some f"
  using lowest_fd_free [of "fds p"]
  by (auto simp: sys_open_def Let_def update_conv')

lemma sys_open_new:
  "os_open sys p path fl \<Longrightarrow>
     map_of (fds (snd (sys_open sys path fl p))) (fst (sys_open sys path fl p))
       = Some (File path fl)"
  by (simp add: sys_open_def Let_def update_conv')

lemma sys_dup2_target:
  "map_of (fds p) a = Some f \<Longrightarrow> 0 \<le> b \<Longrightarrow> map_of (fds (sys_dup2 a b p)) b = Some f"
  by (simp add: sys_dup2_def update_conv')

lemma sys_dup2_other:
  "k \<noteq> b \<Longrightarrow> map_of (fds (sys_dup2 a b p)) k = map_of (fds p) k"
  by (simp add: sys_dup2_def update_conv' split: option.splits)

lemma redirect_fd:
  assumes "os_open sys p path fl" and "0 \<le> b"
  shows "map_of (fds (sys_dup2 (fst (sys_open sys path fl p)) b (snd (sys_open sys path fl p)))) b
           = Some (File path fl)"
  using assms by (simp add: sys_dup2_target sys_open_new)

section \<open>The blocks of saveAllAndSwitch\<close>

lemma switch_stdin_env: "switch_stdin sys s p = Some (r, p') \<Longrightarrow> env p' = env p"
  by (auto simp: switch_stdin_def case_prod_beta Let_def split: if_splits option.splits)

lemma switch_stdout_env: "switch_stdout sys s p = Some (r, p') \<Longrightarrow> env p' = env p"
  by (auto simp: switch_stdout_def case_prod_beta Let_def split: if_splits option.splits)

lemma switch_stdout_fd:
  assumes "out s = Some wo" and "\<And>q path fl. os_open sys q path fl"
    and "switch_stdout sys s p = Some (r, p')"
  shows "map_of (fds p') STDOUT_FILENO =
           Some (File (resolve (env p) (fragments (out s)))
                   (if io_flags s = IO_OUT_APPEND \<or>
                       (err s \<noteq> None \<and> string wo = string (the (err s)))
                    then O_WRONLY_CREAT_APPEND else O_WRONLY_CREAT_TRUNC))"
  using assms(1,3)
  by (auto simp: switch_stdout_def case_prod_beta Let_def getFile_resolve redirect_fd assms(2)
        STDOUT_FILENO_def split: if_splits)

lemma switch_stderr_fd:
  assumes "err s = Some we" and "\<And>q path fl. os_open sys q path fl"
    and "switch_stderr sys s p = Some (r, p')"
  shows "map_of (fds p') STDERR_FILENO =
           Some (File (resolve (env p) (fragments (err s)))
                   (if io_flags s = IO_ERR_APPEND
                    then O_WRONLY_CREAT_APPEND else O_WRONLY_CREAT_TRUNC))"
  using assms(1,3)
  by (auto simp: switch_stderr_def case_prod_beta Let_def getFile_resolve redirect_fd assms(2)
        STDERR_FILENO_def split: if_splits)

lemma switch_stderr_keeps:
  assumes "map_of (fds p) k = Some f" and "k \<noteq> STDERR_FILENO"
    and "switch_stderr sys s p = Some (r, p')"
  shows "map_of (fds p') k = Some f"
  using assms
  by (auto simp: switch_stderr_def case_prod_beta Let_def sys_dup2_other sys_open_keeps
        sys_dup_keeps split: if_splits option.splits)

text \<open>
  Two tests of \<^verbatim>\<open>saveAllAndSwitch\<close> that miss their mark. The same-target test compares
  the text of the first fragments: for the output target \<^verbatim>\<open>a\<close>\<^verbatim>\<open>b\<close> in two fragments
  and the error target \<^verbatim>\<open>ab\<close> it does not see that the paths are the same. The flags are
  compared by equality: with both append flags set, neither comparison holds.
\<close>

lemma same_target_test_slips:
  "saveAllAndSwitch sys0
     ((simple ''ls'' None)\<lparr>out := Some (Word_t ''a'' False (Some (lit ''b'')) None),
                           err := Some (lit ''ab'')\<rparr>) proc0 =
     Some ([- 1, 3, 5, - 1, 4, 6],
           proc0\<lparr>fds := [(0, Inherited 0), (1, File ''ab'' O_WRONLY_CREAT_TRUNC),
                          (2, File ''ab'' O_WRONLY_CREAT_TRUNC), (3, Inherited 1),
                          (4, File ''ab'' O_WRONLY_CREAT_TRUNC), (5, Inherited 2),
                          (6, File ''ab'' O_WRONLY_CREAT_TRUNC)]\<rparr>) \<and>
   saveAllAndSwitch sys0
     ((simple ''ls'' None)\<lparr>out := Some (lit ''f''), err := Some (lit ''f''),
                           io_flags := IO_OUT_APPEND + IO_ERR_APPEND\<rparr>) proc0 =
     Some ([- 1, 3, 5, - 1, 4, 6],
           proc0\<lparr>fds := [(0, Inherited 0), (1, File ''f'' O_WRONLY_CREAT_APPEND),
                          (2, File ''f'' O_WRONLY_CREAT_TRUNC), (3, Inherited 1),
                          (4, File ''f'' O_WRONLY_CREAT_APPEND), (5, Inherited 2),
                          (6, File ''f'' O_WRONLY_CREAT_TRUNC)]\<rparr>)"
  by code_simp

section \<open>Saving and restoring the streams\<close>

text \<open>
  One block of \<^verbatim>\<open>saveAllAndSwitch\<close> in a process with the three standard streams open:
  the duplicate and the new descriptor are not standard streams, the duplicate refers to
  what the stream referred to, the stream stays open, and every other open descriptor is
  left as it is.
\<close>

lemma redirect_frame:
  assumes "map_of (fds p) 0 \<noteq> None" and "map_of (fds p) 1 \<noteq> None"
    and "map_of (fds p) 2 \<noteq> None" and "X \<in> {0, 1, 2}"
  shows "fst (sys_dup X p) \<notin> {0, 1, 2}"
    and "fst (sys_open sys path fl (snd (sys_dup X p))) \<notin> {0, 1, 2}"
    and "map_of (fds (sys_dup2 (fst (sys_open sys path fl (snd (sys_dup X p)))) X
                       (snd (sys_open sys path fl (snd (sys_dup X p))))))
           (fst (sys_dup X p)) = map_of (fds p) X"
    and "map_of (fds (sys_dup2 (fst (sys_open sys path fl (snd (sys_dup X p)))) X
                       (snd (sys_open sys path fl (snd (sys_dup X p)))))) X \<noteq> None"
    and "k \<noteq> X \<Longrightarrow> map_of (fds p) k = Some g \<Longrightarrow>
           map_of (fds (sys_dup2 (fst (sys_open sys path fl (snd (sys_dup X p)))) X
                       (snd (sys_open sys path fl (snd (sys_dup X p)))))) k = Some g"
proof -
  obtain f where f: "map_of (fds p) X = Some f"
    using assms by auto
  let ?sv = "lowest_fd (fds p)"
  let ?t1 = "AList.update ?sv f (fds p)"
  have d: "sys_dup X p = (?sv, p\<lparr>fds := ?t1\<rparr>)"
    by (simp add: sys_dup_def f Let_def)
  have sv: "map_of (fds p) ?sv = None"
    by (rule lowest_fd_free)
  then show 1: "fst (sys_dup X p) \<notin> {0, 1, 2}"
    using assms d by auto
  have svX: "?sv \<noteq> X"
    using sv f by auto
  let ?fd = "fst (sys_open sys path fl (p\<lparr>fds := ?t1\<rparr>))"
  let ?p2 = "snd (sys_open sys path fl (p\<lparr>fds := ?t1\<rparr>))"
  have open1: "map_of ?t1 0 \<noteq> None" "map_of ?t1 1 \<noteq> None" "map_of ?t1 2 \<noteq> None"
    using assms by (simp_all add: update_conv')
  have fd: "?fd = - 1 \<or> map_of ?t1 ?fd = None"
    using lowest_fd_free [of ?t1] by (simp add: sys_open_def Let_def)
  then show "fst (sys_open sys path fl (snd (sys_dup X p))) \<notin> {0, 1, 2}"
    using open1 d by auto
  have keep2: "map_of (fds ?p2) j = Some h" if "map_of ?t1 j = Some h" for j h
    using that sys_open_keeps [of "p\<lparr>fds := ?t1\<rparr>" j h sys path fl] by simp
  have "map_of (fds ?p2) ?sv = Some f"
    by (rule keep2) (simp add: update_conv')
  then show "map_of (fds (sys_dup2 (fst (sys_open sys path fl (snd (sys_dup X p)))) X
                       (snd (sys_open sys path fl (snd (sys_dup X p))))))
           (fst (sys_dup X p)) = map_of (fds p) X"
    using svX by (simp add: d sys_dup2_other f)
  have "map_of (fds ?p2) X = Some f"
    by (rule keep2) (simp add: update_conv' f)
  then show "map_of (fds (sys_dup2 (fst (sys_open sys path fl (snd (sys_dup X p)))) X
                       (snd (sys_open sys path fl (snd (sys_dup X p)))))) X \<noteq> None"
    by (auto simp: d sys_dup2_def update_conv' split: option.splits)
  show "map_of (fds (sys_dup2 (fst (sys_open sys path fl (snd (sys_dup X p)))) X
                       (snd (sys_open sys path fl (snd (sys_dup X p)))))) k = Some g"
    if "k \<noteq> X" and "map_of (fds p) k = Some g"
  proof -
    have "map_of ?t1 k = Some g"
      using that sv by (auto simp: update_conv')
    then have "map_of (fds ?p2) k = Some g"
      by (rule keep2)
    then show ?thesis
      using that(1) by (simp add: d sys_dup2_other)
  qed
qed


lemma switch_stdin_frame:
  assumes o: "map_of (fds p) 0 \<noteq> None" "map_of (fds p) 1 \<noteq> None" "map_of (fds p) 2 \<noteq> None"
    and sw: "switch_stdin sys s p = Some ((sv, fd), p')"
  shows "map_of (fds p') 0 \<noteq> None \<and> map_of (fds p') 1 \<noteq> None \<and> map_of (fds p') 2 \<noteq> None"
    and "k \<noteq> STDIN_FILENO \<Longrightarrow> map_of (fds p) k = Some g \<Longrightarrow> map_of (fds p') k = Some g"
    and "in' s \<noteq> None \<Longrightarrow>
           sv \<notin> {0, 1, 2} \<and> fd \<notin> {0, 1, 2} \<and> map_of (fds p') sv = map_of (fds p) STDIN_FILENO"
    and "in' s = None \<Longrightarrow> fds p' = fds p"
proof -
  have X: "STDIN_FILENO \<in> {0, 1, 2 :: int}"
    by (simp add: STDIN_FILENO_def)
  note fr = redirect_frame [OF o X]
  show "in' s = None \<Longrightarrow> fds p' = fds p"
    using sw by (simp add: switch_stdin_def)
  show "in' s \<noteq> None \<Longrightarrow>
           sv \<notin> {0, 1, 2} \<and> fd \<notin> {0, 1, 2} \<and> map_of (fds p') sv = map_of (fds p) STDIN_FILENO"
    using sw fr(1,2,3)
    by (auto simp: switch_stdin_def case_prod_beta Let_def split: option.splits if_splits)
  show "k \<noteq> STDIN_FILENO \<Longrightarrow> map_of (fds p) k = Some g \<Longrightarrow> map_of (fds p') k = Some g"
    using sw fr(5) [of k g]
    by (auto simp: switch_stdin_def case_prod_beta Let_def split: option.splits if_splits)
  have "map_of (fds p') STDIN_FILENO \<noteq> None"
    using sw fr(4) o
    by (auto simp: switch_stdin_def case_prod_beta Let_def STDIN_FILENO_def
          split: option.splits if_splits)
  moreover have "j \<noteq> STDIN_FILENO \<Longrightarrow> map_of (fds p) j \<noteq> None \<Longrightarrow> map_of (fds p') j \<noteq> None" for j
    using sw fr(5) [of j]
    by (auto simp: switch_stdin_def case_prod_beta Let_def split: option.splits if_splits)
  ultimately show "map_of (fds p') 0 \<noteq> None \<and> map_of (fds p') 1 \<noteq> None \<and> map_of (fds p') 2 \<noteq> None"
    using o by (metis)
qed

lemma switch_stdout_frame:
  assumes o: "map_of (fds p) 0 \<noteq> None" "map_of (fds p) 1 \<noteq> None" "map_of (fds p) 2 \<noteq> None"
    and sw: "switch_stdout sys s p = Some ((sv, fd), p')"
  shows "map_of (fds p') 0 \<noteq> None \<and> map_of (fds p') 1 \<noteq> None \<and> map_of (fds p') 2 \<noteq> None"
    and "k \<noteq> STDOUT_FILENO \<Longrightarrow> map_of (fds p) k = Some g \<Longrightarrow> map_of (fds p') k = Some g"
    and "out s \<noteq> None \<Longrightarrow>
           sv \<notin> {0, 1, 2} \<and> fd \<notin> {0, 1, 2} \<and> map_of (fds p') sv = map_of (fds p) STDOUT_FILENO"
    and "out s = None \<Longrightarrow> fds p' = fds p"
proof -
  have X: "STDOUT_FILENO \<in> {0, 1, 2 :: int}"
    by (simp add: STDOUT_FILENO_def)
  note fr = redirect_frame [OF o X]
  show "out s = None \<Longrightarrow> fds p' = fds p"
    using sw by (simp add: switch_stdout_def)
  show "out s \<noteq> None \<Longrightarrow>
           sv \<notin> {0, 1, 2} \<and> fd \<notin> {0, 1, 2} \<and> map_of (fds p') sv = map_of (fds p) STDOUT_FILENO"
    using sw fr(1,2,3)
    by (auto simp: switch_stdout_def case_prod_beta Let_def split: option.splits if_splits)
  show "k \<noteq> STDOUT_FILENO \<Longrightarrow> map_of (fds p) k = Some g \<Longrightarrow> map_of (fds p') k = Some g"
    using sw fr(5) [of k g]
    by (auto simp: switch_stdout_def case_prod_beta Let_def split: option.splits if_splits)
  have "map_of (fds p') STDOUT_FILENO \<noteq> None"
    using sw fr(4) o
    by (auto simp: switch_stdout_def case_prod_beta Let_def STDOUT_FILENO_def
          split: option.splits if_splits)
  moreover have "j \<noteq> STDOUT_FILENO \<Longrightarrow> map_of (fds p) j \<noteq> None \<Longrightarrow> map_of (fds p') j \<noteq> None" for j
    using sw fr(5) [of j]
    by (auto simp: switch_stdout_def case_prod_beta Let_def split: option.splits if_splits)
  ultimately show "map_of (fds p') 0 \<noteq> None \<and> map_of (fds p') 1 \<noteq> None \<and> map_of (fds p') 2 \<noteq> None"
    using o by (metis)
qed

lemma switch_stderr_frame:
  assumes o: "map_of (fds p) 0 \<noteq> None" "map_of (fds p) 1 \<noteq> None" "map_of (fds p) 2 \<noteq> None"
    and sw: "switch_stderr sys s p = Some ((sv, fd), p')"
  shows "map_of (fds p') 0 \<noteq> None \<and> map_of (fds p') 1 \<noteq> None \<and> map_of (fds p') 2 \<noteq> None"
    and "k \<noteq> STDERR_FILENO \<Longrightarrow> map_of (fds p) k = Some g \<Longrightarrow> map_of (fds p') k = Some g"
    and "err s \<noteq> None \<Longrightarrow>
           sv \<notin> {0, 1, 2} \<and> fd \<notin> {0, 1, 2} \<and> map_of (fds p') sv = map_of (fds p) STDERR_FILENO"
    and "err s = None \<Longrightarrow> fds p' = fds p"
proof -
  have X: "STDERR_FILENO \<in> {0, 1, 2 :: int}"
    by (simp add: STDERR_FILENO_def)
  note fr = redirect_frame [OF o X]
  show "err s = None \<Longrightarrow> fds p' = fds p"
    using sw by (simp add: switch_stderr_def)
  show "err s \<noteq> None \<Longrightarrow>
           sv \<notin> {0, 1, 2} \<and> fd \<notin> {0, 1, 2} \<and> map_of (fds p') sv = map_of (fds p) STDERR_FILENO"
    using sw fr(1,2,3)
    by (auto simp: switch_stderr_def case_prod_beta Let_def split: option.splits if_splits)
  show "k \<noteq> STDERR_FILENO \<Longrightarrow> map_of (fds p) k = Some g \<Longrightarrow> map_of (fds p') k = Some g"
    using sw fr(5) [of k g]
    by (auto simp: switch_stderr_def case_prod_beta Let_def split: option.splits if_splits)
  have "map_of (fds p') STDERR_FILENO \<noteq> None"
    using sw fr(4) o
    by (auto simp: switch_stderr_def case_prod_beta Let_def STDERR_FILENO_def
          split: option.splits if_splits)
  moreover have "j \<noteq> STDERR_FILENO \<Longrightarrow> map_of (fds p) j \<noteq> None \<Longrightarrow> map_of (fds p') j \<noteq> None" for j
    using sw fr(5) [of j]
    by (auto simp: switch_stderr_def case_prod_beta Let_def split: option.splits if_splits)
  ultimately show "map_of (fds p') 0 \<noteq> None \<and> map_of (fds p') 1 \<noteq> None \<and> map_of (fds p') 2 \<noteq> None"
    using o by (metis)
qed


text \<open>
  The round trip in a process with the three standard streams open, whatever runs between
  the two calls as long as it leaves the descriptor table alone: \<^verbatim>\<open>switchAndClose\<close>
  closes the three descriptors \<^verbatim>\<open>saved[3..5]\<close>, and every standard stream that these three
  calls of \<^verbatim>\<open>close\<close> do not hit refers to its original target again. For a redirection
  that is present the descriptor closed is the one opened for it, never a standard stream.
\<close>

lemma restore_streams:
  assumes o: "map_of (fds p) 0 \<noteq> None" "map_of (fds p) 1 \<noteq> None" "map_of (fds p) 2 \<noteq> None"
    and sv: "saveAllAndSwitch sys s p = Some (saved, p1)"
    and same: "fds p2 = fds p1"
  shows "in' s \<noteq> None \<longrightarrow> saved ! 3 \<notin> {0, 1, 2}"
    and "out s \<noteq> None \<longrightarrow> saved ! 4 \<notin> {0, 1, 2}"
    and "err s \<noteq> None \<longrightarrow> saved ! 5 \<notin> {0, 1, 2}"
    and "\<forall>k\<in>{0, 1, 2}. k \<notin> {saved ! 3, saved ! 4, saved ! 5} \<longrightarrow>
           map_of (fds (switchAndClose saved s p2)) k = map_of (fds p) k"
    and "map_of (fds (switchAndClose saved s p2)) (saved ! 3) = None \<and>
         map_of (fds (switchAndClose saved s p2)) (saved ! 4) = None \<and>
         map_of (fds (switchAndClose saved s p2)) (saved ! 5) = None"
proof -
  from sv obtain sv0 fd0 pa sv1 fd1 pb sv2 fd2 where
    a: "switch_stdin sys s p = Some ((sv0, fd0), pa)" and
    b: "switch_stdout sys s pa = Some ((sv1, fd1), pb)" and
    c: "switch_stderr sys s pb = Some ((sv2, fd2), p1)" and
    saved: "saved = [sv0, sv1, sv2, fd0, fd1, fd2]"
    by (auto simp: saveAllAndSwitch_def split: option.splits)
  note A = switch_stdin_frame [OF o a]
  have oa: "map_of (fds pa) 0 \<noteq> None" "map_of (fds pa) 1 \<noteq> None" "map_of (fds pa) 2 \<noteq> None"
    using A(1) by simp_all
  note B = switch_stdout_frame [OF oa b]
  have ob: "map_of (fds pb) 0 \<noteq> None" "map_of (fds pb) 1 \<noteq> None" "map_of (fds pb) 2 \<noteq> None"
    using B(1) by simp_all
  note C = switch_stderr_frame [OF ob c]
  have through_b: "map_of (fds pb) k = map_of (fds pa) k"
    if "k \<noteq> STDOUT_FILENO" "map_of (fds pa) k \<noteq> None" for k
    using that B(2) [of k] by auto
  have through_c: "map_of (fds p1) k = map_of (fds pb) k"
    if "k \<noteq> STDERR_FILENO" "map_of (fds pb) k \<noteq> None" for k
    using that C(2) [of k] by auto
  have through_a: "map_of (fds pa) k = map_of (fds p) k"
    if "k \<noteq> STDIN_FILENO" "map_of (fds p) k \<noteq> None" for k
    using that A(2) [of k] by auto
  show n3: "in' s \<noteq> None \<longrightarrow> saved ! 3 \<notin> {0, 1, 2}"
    using A(3) by (simp add: saved)
  show n4: "out s \<noteq> None \<longrightarrow> saved ! 4 \<notin> {0, 1, 2}"
    using B(3) by (simp add: saved)
  show n5: "err s \<noteq> None \<longrightarrow> saved ! 5 \<notin> {0, 1, 2}"
    using C(3) by (simp add: saved)
  have s0: "map_of (fds p2) sv0 = map_of (fds p) 0 \<and> sv0 \<notin> {0, 1, 2}" if "in' s \<noteq> None"
  proof -
    have 1: "sv0 \<notin> {0, 1, 2}" and 2: "map_of (fds pa) sv0 = map_of (fds p) 0"
      using A(3) [OF that] by (simp_all add: STDIN_FILENO_def)
    have "map_of (fds pb) sv0 = map_of (fds pa) sv0"
      using 1 2 o by (intro through_b) (auto simp: STDOUT_FILENO_def)
    moreover have "map_of (fds p1) sv0 = map_of (fds pb) sv0"
      using 1 2 o calculation by (intro through_c) (auto simp: STDERR_FILENO_def)
    ultimately show ?thesis
      using 1 2 same by simp
  qed
  have k0: "map_of (fds p2) 0 = map_of (fds p) 0" if "in' s = None"
  proof -
    have "fds pa = fds p"
      using A(4) [OF that] .
    moreover have "map_of (fds pb) 0 = map_of (fds pa) 0"
      using oa by (intro through_b) (auto simp: STDOUT_FILENO_def)
    moreover have "map_of (fds p1) 0 = map_of (fds pb) 0"
      using ob by (intro through_c) (auto simp: STDERR_FILENO_def)
    ultimately show ?thesis
      using same by simp
  qed
  have s1: "map_of (fds p2) sv1 = map_of (fds p) 1 \<and> sv1 \<notin> {0, 1, 2}" if "out s \<noteq> None"
  proof -
    have 1: "sv1 \<notin> {0, 1, 2}" and 2: "map_of (fds pb) sv1 = map_of (fds pa) 1"
      using B(3) [OF that] by (simp_all add: STDOUT_FILENO_def)
    have "map_of (fds pa) 1 = map_of (fds p) 1"
      using o by (intro through_a) (auto simp: STDIN_FILENO_def)
    moreover have "map_of (fds p1) sv1 = map_of (fds pb) sv1"
      using 1 2 oa by (intro through_c) (auto simp: STDERR_FILENO_def)
    ultimately show ?thesis
      using 1 2 same by simp
  qed
  have k1: "map_of (fds p2) 1 = map_of (fds p) 1" if "out s = None"
  proof -
    have "fds pb = fds pa"
      using B(4) [OF that] .
    moreover have "map_of (fds pa) 1 = map_of (fds p) 1"
      using o by (intro through_a) (auto simp: STDIN_FILENO_def)
    moreover have "map_of (fds p1) 1 = map_of (fds pb) 1"
      using ob by (intro through_c) (auto simp: STDERR_FILENO_def)
    ultimately show ?thesis
      using same by simp
  qed
  have s2: "map_of (fds p2) sv2 = map_of (fds p) 2 \<and> sv2 \<notin> {0, 1, 2}" if "err s \<noteq> None"
  proof -
    have 1: "sv2 \<notin> {0, 1, 2}" and 2: "map_of (fds p1) sv2 = map_of (fds pb) 2"
      using C(3) [OF that] by (simp_all add: STDERR_FILENO_def)
    have "map_of (fds pa) 2 = map_of (fds p) 2"
      using o by (intro through_a) (auto simp: STDIN_FILENO_def)
    moreover have "map_of (fds pb) 2 = map_of (fds pa) 2"
      using oa by (intro through_b) (auto simp: STDOUT_FILENO_def)
    ultimately show ?thesis
      using 1 2 same by simp
  qed
  have k2: "map_of (fds p2) 2 = map_of (fds p) 2" if "err s = None"
  proof -
    have "fds p1 = fds pb"
      using C(4) [OF that] .
    moreover have "map_of (fds pa) 2 = map_of (fds p) 2"
      using o by (intro through_a) (auto simp: STDIN_FILENO_def)
    moreover have "map_of (fds pb) 2 = map_of (fds pa) 2"
      using oa by (intro through_b) (auto simp: STDOUT_FILENO_def)
    ultimately show ?thesis
      using same by simp
  qed
  let ?r0 = "if in' s \<noteq> None then sys_dup2 sv0 STDIN_FILENO p2 else p2"
  let ?r1 = "if out s \<noteq> None then sys_dup2 sv1 STDOUT_FILENO ?r0 else ?r0"
  let ?r2 = "if err s \<noteq> None then sys_dup2 sv2 STDERR_FILENO ?r1 else ?r1"
  have q: "switchAndClose saved s p2 = sys_close fd2 (sys_close fd1 (sys_close fd0 ?r2))"
    by (simp add: switchAndClose_def saved Let_def)
  have r0: "map_of (fds ?r0) 0 = map_of (fds p) 0"
    using s0 k0 o(1) by (auto simp: STDIN_FILENO_def sys_dup2_target)
  have r0': "map_of (fds ?r0) k = map_of (fds p2) k" if "k \<noteq> 0" for k
    using that by (simp add: STDIN_FILENO_def sys_dup2_other)
  have r1: "map_of (fds ?r1) 1 = map_of (fds p) 1"
  proof (cases "out s = None")
    case True
    then show ?thesis using k1 r0' [of 1] by simp
  next
    case False
    then have "map_of (fds ?r0) sv1 = map_of (fds p) 1"
      using s1 r0' [of sv1] by auto
    then show ?thesis
      using False o(2) by (auto simp: STDOUT_FILENO_def sys_dup2_target)
  qed
  have r1': "map_of (fds ?r1) k = map_of (fds ?r0) k" if "k \<noteq> 1" for k
    using that by (simp add: STDOUT_FILENO_def sys_dup2_other)
  have r2: "map_of (fds ?r2) 2 = map_of (fds p) 2"
  proof (cases "err s = None")
    case True
    then show ?thesis using k2 r0' [of 2] r1' [of 2] by simp
  next
    case False
    then have "map_of (fds ?r1) sv2 = map_of (fds p) 2"
      using s2 r0' [of sv2] r1' [of sv2] by auto
    then show ?thesis
      using False o(3) by (auto simp: STDERR_FILENO_def sys_dup2_target)
  qed
  have r2': "map_of (fds ?r2) k = map_of (fds ?r1) k" if "k \<noteq> 2" for k
    using that by (simp add: STDERR_FILENO_def sys_dup2_other)
  have all: "map_of (fds ?r2) k = map_of (fds p) k" if "k \<in> {0, 1, 2}" for k
    using that r0 r1 r2 r1' [of 0] r2' [of 0] r2' [of 1] by auto
  show "\<forall>k\<in>{0, 1, 2}. k \<notin> {saved ! 3, saved ! 4, saved ! 5} \<longrightarrow>
           map_of (fds (switchAndClose saved s p2)) k = map_of (fds p) k"
  proof (intro ballI impI)
    fix k :: int
    assume k: "k \<in> {0, 1, 2}" and nk: "k \<notin> {saved ! 3, saved ! 4, saved ! 5}"
    from nk have "map_of (fds (switchAndClose saved s p2)) k = map_of (fds ?r2) k"
      unfolding q by (simp add: saved sys_close_def delete_conv')
    then show "map_of (fds (switchAndClose saved s p2)) k = map_of (fds p) k"
      using all [OF k] by simp
  qed
  show "map_of (fds (switchAndClose saved s p2)) (saved ! 3) = None \<and>
         map_of (fds (switchAndClose saved s p2)) (saved ! 4) = None \<and>
         map_of (fds (switchAndClose saved s p2)) (saved ! 5) = None"
    unfolding q by (simp add: saved sys_close_def delete_conv')
qed

section \<open>The built-in cd\<close>

lemma shell_cd_fds: "fds (snd (shell_cd sys dir p)) = fds p"
  by (simp add: shell_cd_def chdir_def case_prod_beta Let_def split: option.splits)

lemma shell_cd_Some:
  "shell_cd sys (Some (Word_t str ex np nw)) p =
     (case os_chdir sys p str of None \<Rightarrow> (False, p) | Some d \<Rightarrow> (True, p\<lparr>cwd := d\<rparr>))"
  by (simp add: shell_cd_def chdir_def split: option.splits)

lemma parse_simple_child_cd:
  "string v = ''cd'' \<Longrightarrow> parse_simple_child sys s v q \<noteq> None \<Longrightarrow>
     parse_simple_child sys s v q = Some 0"
  by (auto simp: parse_simple_child_def W_EXITCODE_def case_prod_beta Let_def
       split: option.splits if_splits)

section \<open>The operators in general\<close>

text \<open>
  A sequence whose children return passes through the state of the left child to the right
  child and returns 0, whatever the two statuses are.
\<close>

lemma parse_command_sequential:
  assumes "parse_command sys c1 level father p = Returned status1 p1"
    and "parse_command sys c2 level father p1 = Returned status2 p2"
  shows "parse_command sys (Some (Command_t c1 c2 OP_SEQUENTIAL sc)) level father p
           = Returned 0 p2"
  using assms by simp

text \<open>
  For an external verb the caller of \<^verbatim>\<open>parse_simple\<close> receives the wait status of the
  child, and the process has created one child and waited for it.
\<close>

lemma parse_simple_external:
  assumes "verb s = Some v" and "\<not> is_assignment v"
    and "string v \<notin> {''exit'', ''quit'', ''true'', ''false'', ''cd''}"
    and "fork sys p = Some (pid, p1)"
    and "parse_simple_child sys s v (child p) = Some status"
  shows "parse_simple sys (Some s) level father p = Returned status (waitpid pid p1)"
  using assms by (simp add: parse_simple_def)

text \<open>
  The two ends of a pipe are new descriptors; closing both gives back the descriptor table
  from before the call of \<^verbatim>\<open>pipe\<close>.
\<close>

lemma delete_update_fresh: "map_of t k = None \<Longrightarrow> AList.delete k (AList.update k v t) = t"
  by (simp add: delete_update_same map_of_eq_None_iff)

lemma sys_pipe_closed:
  assumes "sys_pipe p = (pipefd, p0)" and "fds p2 = fds p0"
  shows "fds (sys_close (pipefd ! WRITE) (sys_close (pipefd ! READ) p2)) = fds p"
proof -
  let ?r = "lowest_fd (fds p)"
  let ?t1 = "AList.update ?r Pipe_read (fds p)"
  let ?w = "lowest_fd ?t1"
  have r: "map_of (fds p) ?r = None" and w: "map_of ?t1 ?w = None"
    by (rule lowest_fd_free)+
  from w have ne: "?w \<noteq> ?r" and w': "map_of (fds p) ?w = None"
    by (auto simp: update_conv' split: if_splits)
  have "pipefd = [?r, ?w]" and "fds p0 = AList.update ?w Pipe_write ?t1"
    using assms(1) by (auto simp: sys_pipe_def Let_def)
  then show ?thesis
    using assms(2) ne r w'
    by (simp add: sys_close_def delete_update delete_update_fresh READ_def WRITE_def)
qed

text \<open>
  Where \<^verbatim>\<open>fork\<close> succeeds and the children stay within defined behaviour, the process
  that evaluates a pipe ends with the descriptor table it started with, and has created
  two children and waited for the first and for the second.
\<close>

lemma run_on_pipe_returns:
  assumes "\<And>q. os_fork sys q" and "run_on_pipe sys c1 c2 level father p \<noteq> Undefined"
  shows "\<exists>b. run_on_pipe sys c1 c2 level father p =
           Returned b
             (p\<lparr>trace := trace p @
                   [Fork (1 + int (length (filter is_Fork (trace p)))),
                    Fork (2 + int (length (filter is_Fork (trace p)))),
                    Waitpid (1 + int (length (filter is_Fork (trace p)))),
                    Waitpid (2 + int (length (filter is_Fork (trace p))))]\<rparr>)"
proof -
  obtain pipefd p0 where pp: "sys_pipe p = (pipefd, p0)"
    by (cases "sys_pipe p")
  then have p0: "p0 = p\<lparr>fds := fds p0\<rparr>"
    by (auto simp: sys_pipe_def Let_def)
  let ?k = "1 + int (length (filter is_Fork (trace p)))"
  let ?p2 = "p0\<lparr>trace := trace p @ [Fork ?k, Fork (?k + 1)]\<rparr>"
  have tr: "trace p0 = trace p"
    using pp by (auto simp: sys_pipe_def Let_def)
  have f1: "fork sys p0 = Some (?k, p0\<lparr>trace := trace p @ [Fork ?k]\<rparr>)"
    using assms(1) tr by (simp add: fork_def Let_def)
  have f2: "fork sys (p0\<lparr>trace := trace p @ [Fork ?k]\<rparr>) = Some (?k + 1, ?p2)"
    using assms(1) by (simp add: fork_def Let_def is_Fork_def)
  have cl: "fds (sys_close (pipefd ! WRITE) (sys_close (pipefd ! READ) ?p2)) = fds p"
    by (rule sys_pipe_closed [OF pp]) simp
  have rest: "sys_close (pipefd ! WRITE) (sys_close (pipefd ! READ) ?p2)
                = p\<lparr>trace := trace p @ [Fork ?k, Fork (?k + 1)]\<rparr>"
    using cl p0 by (cases p, cases p0) (simp add: sys_close_def)
  show ?thesis
    using assms(2) pp f1 f2 rest
    by (auto simp: waitpid_def split: option.splits)
qed

text \<open>
  A parallel node never hands a status of its branches to the caller: where it returns,
  also after a failed \<^verbatim>\<open>fork\<close>, it returns 0.
\<close>

lemma parse_command_parallel_status:
  assumes "parse_command sys (Some (Command_t c1 c2 OP_PARALLEL sc)) level father p
             = Returned status p'"
  shows "status = 0"
  using assms
  by (cases "run_in_parallel sys c1 c2 level father p") auto

text \<open>
  A conditional node whose own \<^verbatim>\<open>scmd\<close> field is null is evaluated in the process
  itself: the right child runs if and only if the left child returned 0 (for IF_NONZERO:
  not 0), in the state the left child left behind, and its result is the result of the node.
\<close>

lemma conditional_direct:
  assumes "parse_command sys c1 level father p = Returned status p1"
  shows "parse_command sys (Some (Command_t c1 c2 OP_CONDITIONAL_ZERO None)) level father p =
           (if status = 0
            then parse_command sys c2 level father
                   (cd_of_cmd1 sys (Command_t c1 c2 OP_CONDITIONAL_ZERO None) p1)
            else Returned status
                   (cd_of_cmd1 sys (Command_t c1 c2 OP_CONDITIONAL_ZERO None) p1)) \<and>
         parse_command sys (Some (Command_t c1 c2 OP_CONDITIONAL_NZERO None)) level father p =
           (if status \<noteq> 0
            then parse_command sys c2 level father
                   (cd_of_cmd1 sys (Command_t c1 c2 OP_CONDITIONAL_NZERO None) p1)
            else Returned status
                   (cd_of_cmd1 sys (Command_t c1 c2 OP_CONDITIONAL_NZERO None) p1))"
  using assms by simp

text \<open>
  A conditional node whose own \<^verbatim>\<open>scmd\<close> field is set is the same node without the field,
  evaluated in a child; the caller receives the wait status of that child, and only
  \<^verbatim>\<open>Conditional_Zero\<close> repeats the \<^verbatim>\<open>cd\<close> of the left branch in the parent.
\<close>

lemma Conditional_Zero_spawned:
  assumes "sc \<noteq> None" and "fork sys p = Some (pid, p')"
  shows "Conditional_Zero sys (Command_t c1 c2 opr sc) level father p =
           (case child_exit
                   (Conditional_Zero sys (Command_t c1 c2 opr None) level father (child p)) of
              None \<Rightarrow> Undefined
            | Some status \<Rightarrow>
                Returned status (cd_of_cmd1 sys (Command_t c1 c2 opr None) (waitpid pid p')))"
proof -
  from assms(1) obtain x where "sc = Some x"
    by auto
  moreover have "cd_of_cmd1 sys (Command_t c1 c2 opr (Some x))
                   = cd_of_cmd1 sys (Command_t c1 c2 opr None)"
    by (rule ext) (simp add: cd_of_cmd1_def)
  ultimately show ?thesis
    using assms(2) by (simp cong: result.case_cong option.case_cong)
qed

lemma Conditional_NZero_spawned:
  assumes "sc \<noteq> None" and "fork sys p = Some (pid, p')"
  shows "Conditional_NZero sys (Command_t c1 c2 opr sc) level father p =
           (case child_exit
                   (Conditional_NZero sys (Command_t c1 c2 opr None) level father (child p)) of
              None \<Rightarrow> Undefined
            | Some status \<Rightarrow> Returned status (waitpid pid p'))"
proof -
  from assms(1) obtain x where "sc = Some x"
    by auto
  moreover have "cd_of_cmd1 sys (Command_t c1 c2 opr (Some x))
                   = cd_of_cmd1 sys (Command_t c1 c2 opr None)"
    by (rule ext) (simp add: cd_of_cmd1_def)
  ultimately show ?thesis
    using assms(2) by (simp cong: result.case_cong option.case_cong)
qed

section \<open>The claims\<close>

subsection \<open>C1: the status of a sequence\<close>

text \<open>
  Claim C1: a SEQUENCE node evaluates its left child first, discards that status, evaluates
  its right child and returns the status of the right child. The two children are
  evaluated in this order, but \<^verbatim>\<open>parse_command\<close> drops the status of the right child as
  well and leaves the switch for its final \<^verbatim>\<open>return 0\<close>: in every system and every
  process the sequence of \<^verbatim>\<open>true\<close> and \<^verbatim>\<open>false\<close> returns 0, while its right child
  \<^verbatim>\<open>false\<close> returns 1.
\<close>

theorem sequence_returns_zero:
  "parse_command sys
     (Some (Command_t (leaf (simple ''true'' None)) (leaf (simple ''false'' None))
        OP_SEQUENTIAL None)) level father p = Returned 0 p \<and>
   parse_command sys (leaf (simple ''false'' None)) level father p = Returned 1 p"
  by (simp add: leaf_def simple_def lit_def parse_simple_def is_assignment_def)

subsection \<open>C2: the status of a pipe\<close>

text \<open>
  Claim C2: a PIPE node returns the exit status of its right-hand child; the original
  process closes both pipe ends and waits for both children. The original process does
  close both ends and wait for both children (its descriptor table is the one it started
  with, and both children are waited for), but the value it returns is the wait status of
  the second child converted to \<^verbatim>\<open>bool\<close>. With the right-hand command \<^verbatim>\<open>killme\<close>, the
  second child evaluates the command to status 9 and exits with status 9, and the pipe
  returns 1. With a right-hand command that cannot be started, \<^verbatim>\<open>parse_simple\<close> yields
  256 in the second child, \<^verbatim>\<open>exit(256)\<close> ends that child with status 0, and the pipe
  returns 0.
\<close>

theorem pipe_returns_bool_of_wait_status:
  "parse_command sys0
     (Some (Command_t (leaf (simple ''true'' None)) (leaf (simple ''killme'' None))
        OP_PIPE None)) 0 None proc0
     = Returned 1 (proc0\<lparr>trace := [Fork 1, Fork 2, Waitpid 1, Waitpid 2]\<rparr>) \<and>
   parse_command sys0 (leaf (simple ''killme'' None)) 0 None
     (proc0\<lparr>fds := [(0, Pipe_read), (1, Inherited 1), (2, Inherited 2)]\<rparr>)
     = Returned 9
         (proc0\<lparr>fds := [(0, Pipe_read), (1, Inherited 1), (2, Inherited 2)],
                 trace := [Fork 1, Waitpid 1]\<rparr>) \<and>
   child_exit
     (Returned 9
        (proc0\<lparr>fds := [(0, Pipe_read), (1, Inherited 1), (2, Inherited 2)],
                trace := [Fork 1, Waitpid 1]\<rparr>))
     = Some (W_EXITCODE 9 0) \<and>
   parse_command sys0
     (Some (Command_t (leaf (simple ''true'' None)) (leaf (simple ''nosuch'' None))
        OP_PIPE None)) 0 None proc0
     = Returned 0 (proc0\<lparr>trace := [Fork 1, Fork 2, Waitpid 1, Waitpid 2]\<rparr>) \<and>
   parse_command sys0 (leaf (simple ''nosuch'' None)) 0 None
     (proc0\<lparr>fds := [(0, Pipe_read), (1, Inherited 1), (2, Inherited 2)]\<rparr>)
     = Returned 256
         (proc0\<lparr>fds := [(0, Pipe_read), (1, Inherited 1), (2, Inherited 2)],
                 trace := [Fork 1, Waitpid 1]\<rparr>)"
  by code_simp

subsection \<open>C3: restoring the standard streams\<close>

text \<open>
  Claim C3: after a redirected simple command has been evaluated, the three standard streams
  of the invoking process refer to their original targets, every descriptor opened for the
  redirection is closed, and no descriptor is left open. The redirections are applied in
  the child that \<^verbatim>\<open>parse_simple\<close> creates, never in the invoking process: whenever
  \<^verbatim>\<open>parse_simple\<close> returns, the descriptor table of the invoking process is the one it
  started with. In the child, on the path that comes back from the built-in \<^verbatim>\<open>cd\<close>,
  \<^verbatim>\<open>switchAndClose\<close> closes the descriptors opened for the redirections and puts the
  standard streams back; the duplicates that saved the streams stay open until the child
  exits, which is its next statement.
\<close>

theorem redirection_round_trip:
  "(parse_simple sys s level father p = Returned status p' \<longrightarrow> fds p' = fds p) \<and>
   (map_of (fds q) 0 \<noteq> None \<and> map_of (fds q) 1 \<noteq> None \<and> map_of (fds q) 2 \<noteq> None \<and>
    saveAllAndSwitch sys sc q = Some (saved, q1) \<longrightarrow>
      (\<forall>k\<in>{0, 1, 2}. k \<notin> {saved ! 3, saved ! 4, saved ! 5} \<longrightarrow>
         map_of (fds (switchAndClose saved sc (snd (shell_cd sys (params sc) q1)))) k
           = map_of (fds q) k) \<and>
      map_of (fds (switchAndClose saved sc (snd (shell_cd sys (params sc) q1)))) (saved ! 3)
        = None \<and>
      map_of (fds (switchAndClose saved sc (snd (shell_cd sys (params sc) q1)))) (saved ! 4)
        = None \<and>
      map_of (fds (switchAndClose saved sc (snd (shell_cd sys (params sc) q1)))) (saved ! 5)
        = None \<and>
      (in' sc \<noteq> None \<longrightarrow> saved ! 3 \<notin> {0, 1, 2}) \<and>
      (out sc \<noteq> None \<longrightarrow> saved ! 4 \<notin> {0, 1, 2}) \<and>
      (err sc \<noteq> None \<longrightarrow> saved ! 5 \<notin> {0, 1, 2}))"
proof -
  have parent: "fds p' = fds p" if "parse_simple sys s level father p = Returned status p'"
    using that
    by (auto simp: parse_simple_def setenv_def shell_exit_def fork_def waitpid_def shell_cd_def
          chdir_def Let_def case_prod_beta
        split: option.splits if_splits)
  have child: "(\<forall>k\<in>{0, 1, 2}. k \<notin> {saved ! 3, saved ! 4, saved ! 5} \<longrightarrow>
         map_of (fds (switchAndClose saved sc (snd (shell_cd sys (params sc) q1)))) k
           = map_of (fds q) k) \<and>
      map_of (fds (switchAndClose saved sc (snd (shell_cd sys (params sc) q1)))) (saved ! 3)
        = None \<and>
      map_of (fds (switchAndClose saved sc (snd (shell_cd sys (params sc) q1)))) (saved ! 4)
        = None \<and>
      map_of (fds (switchAndClose saved sc (snd (shell_cd sys (params sc) q1)))) (saved ! 5)
        = None \<and>
      (in' sc \<noteq> None \<longrightarrow> saved ! 3 \<notin> {0, 1, 2}) \<and>
      (out sc \<noteq> None \<longrightarrow> saved ! 4 \<notin> {0, 1, 2}) \<and>
      (err sc \<noteq> None \<longrightarrow> saved ! 5 \<notin> {0, 1, 2})"
    if o: "map_of (fds q) 0 \<noteq> None" "map_of (fds q) 1 \<noteq> None" "map_of (fds q) 2 \<noteq> None"
      and sv: "saveAllAndSwitch sys sc q = Some (saved, q1)"
    using restore_streams [OF o sv shell_cd_fds [of sys "params sc" q1]]
    by blast
  show ?thesis
    using parent child by blast
qed

text \<open>
  The theorem at \<^verbatim>\<open>cd /tmp < a > b 2> c\<close>: the invoking process ends in \<^verbatim>\<open>/tmp\<close> with
  its descriptors untouched; in the child the duplicates are 3, 5 and 7, the files are 4, 6
  and 8, and after \<^verbatim>\<open>switchAndClose\<close> the streams 0, 1 and 2 are the original ones and
  the files are closed.
\<close>

theorem redirection_round_trip_witness:
  "parse_simple sys0 (Some redirected) 0 None proc0
     = Returned 0 (proc0\<lparr>cwd := ''/tmp'', trace := [Fork 1, Waitpid 1]\<rparr>) \<and>
   fds (proc0\<lparr>cwd := ''/tmp'', trace := [Fork 1, Waitpid 1]\<rparr>) = fds proc0 \<and>
   saveAllAndSwitch sys0 redirected proc0 =
     Some ([3, 5, 7, 4, 6, 8],
           proc0\<lparr>fds := [(0, File ''a'' O_RDONLY), (1, File ''b'' O_WRONLY_CREAT_TRUNC),
                          (2, File ''c'' O_WRONLY_CREAT_TRUNC), (3, Inherited 0),
                          (4, File ''a'' O_RDONLY), (5, Inherited 1),
                          (6, File ''b'' O_WRONLY_CREAT_TRUNC), (7, Inherited 2),
                          (8, File ''c'' O_WRONLY_CREAT_TRUNC)]\<rparr>) \<and>
   switchAndClose [3, 5, 7, 4, 6, 8] redirected
     (snd (shell_cd sys0 (params redirected)
        (proc0\<lparr>fds := [(0, File ''a'' O_RDONLY), (1, File ''b'' O_WRONLY_CREAT_TRUNC),
                       (2, File ''c'' O_WRONLY_CREAT_TRUNC), (3, Inherited 0),
                       (4, File ''a'' O_RDONLY), (5, Inherited 1),
                       (6, File ''b'' O_WRONLY_CREAT_TRUNC), (7, Inherited 2),
                       (8, File ''c'' O_WRONLY_CREAT_TRUNC)]\<rparr>)))
     = proc0\<lparr>cwd := ''/tmp'',
              fds := [(0, Inherited 0), (1, Inherited 1), (2, Inherited 2), (3, Inherited 0),
                      (5, Inherited 1), (7, Inherited 2)]\<rparr>"
proof -
  let ?q1 = "proc0\<lparr>fds := [(0, File ''a'' O_RDONLY), (1, File ''b'' O_WRONLY_CREAT_TRUNC),
                          (2, File ''c'' O_WRONLY_CREAT_TRUNC), (3, Inherited 0),
                          (4, File ''a'' O_RDONLY), (5, Inherited 1),
                          (6, File ''b'' O_WRONLY_CREAT_TRUNC), (7, Inherited 2),
                          (8, File ''c'' O_WRONLY_CREAT_TRUNC)]\<rparr>"
  have run: "parse_simple sys0 (Some redirected) 0 None proc0
     = Returned 0 (proc0\<lparr>cwd := ''/tmp'', trace := [Fork 1, Waitpid 1]\<rparr>)"
    by code_simp
  have o: "map_of (fds proc0) 0 \<noteq> None \<and> map_of (fds proc0) 1 \<noteq> None \<and>
           map_of (fds proc0) 2 \<noteq> None"
    by code_simp
  have sv: "saveAllAndSwitch sys0 redirected proc0 = Some ([3, 5, 7, 4, 6, 8], ?q1)"
    by code_simp
  have fin: "switchAndClose [3, 5, 7, 4, 6, 8] redirected
               (snd (shell_cd sys0 (params redirected) ?q1))
     = proc0\<lparr>cwd := ''/tmp'',
              fds := [(0, Inherited 0), (1, Inherited 1), (2, Inherited 2), (3, Inherited 0),
                      (5, Inherited 1), (7, Inherited 2)]\<rparr>"
    by code_simp
  show ?thesis
    using run o sv fin
      redirection_round_trip
        [of sys0 "Some redirected" 0 None proc0 0
            "proc0\<lparr>cwd := ''/tmp'', trace := [Fork 1, Waitpid 1]\<rparr>" proc0 redirected
            "[3, 5, 7, 4, 6, 8]" ?q1]
    by simp
qed

subsection \<open>C4: output and error to the same target\<close>

text \<open>
  As stated, the claim fails. With output and error both sent to \<^verbatim>\<open>f\<close>, the output file
  is opened for appending but the error file is truncated, when no append flag is set and
  when only the output flag is set: the mode of the error file follows its own flag. With
  a target of 100 characters, \<^verbatim>\<open>getFile\<close> writes past its buffer before any file is
  opened.
\<close>

theorem same_target_counterexample:
  "saveAllAndSwitch sys0
     ((simple ''ls'' None)\<lparr>out := Some (lit ''f''), err := Some (lit ''f'')\<rparr>) proc0 =
     Some ([- 1, 3, 5, - 1, 4, 6],
           proc0\<lparr>fds := [(0, Inherited 0), (1, File ''f'' O_WRONLY_CREAT_APPEND),
                          (2, File ''f'' O_WRONLY_CREAT_TRUNC), (3, Inherited 1),
                          (4, File ''f'' O_WRONLY_CREAT_APPEND), (5, Inherited 2),
                          (6, File ''f'' O_WRONLY_CREAT_TRUNC)]\<rparr>) \<and>
   saveAllAndSwitch sys0
     ((simple ''ls'' None)\<lparr>out := Some (lit ''f''), err := Some (lit ''f''),
                           io_flags := IO_OUT_APPEND\<rparr>) proc0 =
     Some ([- 1, 3, 5, - 1, 4, 6],
           proc0\<lparr>fds := [(0, Inherited 0), (1, File ''f'' O_WRONLY_CREAT_APPEND),
                          (2, File ''f'' O_WRONLY_CREAT_TRUNC), (3, Inherited 1),
                          (4, File ''f'' O_WRONLY_CREAT_APPEND), (5, Inherited 2),
                          (6, File ''f'' O_WRONLY_CREAT_TRUNC)]\<rparr>) \<and>
   saveAllAndSwitch sys0
     ((simple ''ls'' None)\<lparr>out := Some (lit (replicate 100 CHR ''a'')),
                           err := Some (lit (replicate 100 CHR ''a''))\<rparr>) proc0 = None"
  by code_simp

text \<open>
  Claim C4, amended: for every simple command whose output and error targets both exist
  and resolve to the same path, the output file is opened in append mode, also when no
  append flag is set for it, and the error file is opened in append mode if its own append
  flag is set and truncated otherwise. This is stated for targets whose first fragments
  have the same text, for at most one append flag, for paths that fit the 100-byte
  buffers and for files that can be opened; nothing is said about the other inputs.
\<close>

theorem same_target_open_modes:
  assumes "out s = Some wo" and "err s = Some we"
    and "resolve (env p) (fragments (out s)) = resolve (env p) (fragments (err s))"
    and "string wo = string we"
    and "io_flags s = IO_REGULAR \<or> io_flags s = IO_OUT_APPEND \<or> io_flags s = IO_ERR_APPEND"
    and "\<And>q path fl. os_open sys q path fl"
    and "saveAllAndSwitch sys s p = Some (saved, p')"
  shows "map_of (fds p') STDOUT_FILENO =
           Some (File (resolve (env p) (fragments (out s))) O_WRONLY_CREAT_APPEND) \<and>
         map_of (fds p') STDERR_FILENO =
           Some (File (resolve (env p) (fragments (out s)))
                   (if io_flags s = IO_ERR_APPEND
                    then O_WRONLY_CREAT_APPEND else O_WRONLY_CREAT_TRUNC))"
proof -
  from assms(7) obtain r1 p1 r2 p2 r3 where
    1: "switch_stdin sys s p = Some (r1, p1)" and
    2: "switch_stdout sys s p1 = Some (r2, p2)" and
    3: "switch_stderr sys s p2 = Some (r3, p')"
    by (auto simp: saveAllAndSwitch_def split: option.splits)
  have e1: "env p1 = env p" and e2: "env p2 = env p"
    using 1 2 by (simp_all add: switch_stdin_env switch_stdout_env)
  have "map_of (fds p2) STDOUT_FILENO =
          Some (File (resolve (env p) (fragments (out s))) O_WRONLY_CREAT_APPEND)"
    using switch_stdout_fd [OF assms(1) assms(6) 2] assms(2,4) e1 by simp
  then have "map_of (fds p') STDOUT_FILENO =
          Some (File (resolve (env p) (fragments (out s))) O_WRONLY_CREAT_APPEND)"
    using switch_stderr_keeps [OF _ _ 3] by (simp add: STDOUT_FILENO_def STDERR_FILENO_def)
  moreover have "map_of (fds p') STDERR_FILENO =
          Some (File (resolve (env p) (fragments (out s)))
                  (if io_flags s = IO_ERR_APPEND
                   then O_WRONLY_CREAT_APPEND else O_WRONLY_CREAT_TRUNC))"
    using switch_stderr_fd [OF assms(2) assms(6) 3] e2 assms(3) by simp
  ultimately show ?thesis by simp
qed

text \<open>
  The theorem at \<^verbatim>\<open>ls > f 2>> f\<close>, where the flag asks for appending to the error file
  only: both files are opened for appending.
\<close>

theorem same_target_open_modes_witness:
  "saveAllAndSwitch sys0
     ((simple ''ls'' None)\<lparr>out := Some (lit ''f''), err := Some (lit ''f''),
                           io_flags := IO_ERR_APPEND\<rparr>) proc0 =
     Some ([- 1, 3, 5, - 1, 4, 6],
           proc0\<lparr>fds := [(0, Inherited 0), (1, File ''f'' O_WRONLY_CREAT_APPEND),
                          (2, File ''f'' O_WRONLY_CREAT_APPEND), (3, Inherited 1),
                          (4, File ''f'' O_WRONLY_CREAT_APPEND), (5, Inherited 2),
                          (6, File ''f'' O_WRONLY_CREAT_APPEND)]\<rparr>) \<and>
   map_of [(0, Inherited 0), (1, File ''f'' O_WRONLY_CREAT_APPEND),
           (2, File ''f'' O_WRONLY_CREAT_APPEND), (3, Inherited 1),
           (4, File ''f'' O_WRONLY_CREAT_APPEND), (5, Inherited 2),
           (6, File ''f'' O_WRONLY_CREAT_APPEND)] STDOUT_FILENO
     = Some (File ''f'' O_WRONLY_CREAT_APPEND) \<and>
   map_of [(0, Inherited 0), (1, File ''f'' O_WRONLY_CREAT_APPEND),
           (2, File ''f'' O_WRONLY_CREAT_APPEND), (3, Inherited 1),
           (4, File ''f'' O_WRONLY_CREAT_APPEND), (5, Inherited 2),
           (6, File ''f'' O_WRONLY_CREAT_APPEND)] STDERR_FILENO
     = Some (File ''f'' O_WRONLY_CREAT_APPEND)"
proof -
  let ?s = "(simple ''ls'' None)\<lparr>out := Some (lit ''f''), err := Some (lit ''f''),
                                  io_flags := IO_ERR_APPEND\<rparr>"
  let ?p = "proc0\<lparr>fds := [(0, Inherited 0), (1, File ''f'' O_WRONLY_CREAT_APPEND),
                          (2, File ''f'' O_WRONLY_CREAT_APPEND), (3, Inherited 1),
                          (4, File ''f'' O_WRONLY_CREAT_APPEND), (5, Inherited 2),
                          (6, File ''f'' O_WRONLY_CREAT_APPEND)]\<rparr>"
  have o: "out ?s = Some (lit ''f'')" and e: "err ?s = Some (lit ''f'')"
    by simp_all
  have same: "resolve (env proc0) (fragments (out ?s)) = resolve (env proc0) (fragments (err ?s))"
    by simp
  have fl: "io_flags ?s = IO_REGULAR \<or> io_flags ?s = IO_OUT_APPEND \<or> io_flags ?s = IO_ERR_APPEND"
    by simp
  have opn: "os_open sys0 q path fl" for q path fl
    by (simp add: sys0_def)
  have run: "saveAllAndSwitch sys0 ?s proc0 = Some ([- 1, 3, 5, - 1, 4, 6], ?p)"
    by code_simp
  show ?thesis
    using run same_target_open_modes [OF o e same refl fl opn run]
    by (simp add: resolve_def lit_def)
qed

subsection \<open>C5: the status of an external command\<close>

text \<open>
  Claim C5: for an external verb the original process waits for the spawned child and
  returns the exit status of the child verbatim, so that a child that exits with status 1
  is seen as status 1. The original process does wait, but \<^verbatim>\<open>parse_simple\<close> returns the
  integer that \<^verbatim>\<open>waitpid\<close> stored, without extracting the exit status from it. For a
  program that cannot be started the child calls \<^verbatim>\<open>shell_exit(1)\<close>, its wait status is
  \<open>W_EXITCODE 1 0\<close>, and the caller receives 256.
\<close>

theorem external_status_is_wait_status:
  "parse_simple_child sys0 (simple ''nosuch'' None) (lit ''nosuch'') (child proc0)
     = Some (W_EXITCODE 1 0) \<and>
   parse_simple sys0 (Some (simple ''nosuch'' None)) 0 None proc0
     = Returned 256 (proc0\<lparr>trace := [Fork 1, Waitpid 1]\<rparr>)"
  by code_simp

subsection \<open>C6: the conditional operators\<close>

text \<open>
  Claim C6: the right child of an IF_ZERO node is evaluated if and only if the left child
  returned exactly 0, the right child of an IF_NONZERO node if and only if the left child
  returned a status other than 0; the node returns the status of the right child when the
  right child ran and the status of the left child otherwise. A node whose own \<^verbatim>\<open>scmd\<close>
  field is set is evaluated in a spawned process, which exits with that status; the
  original process returns the integer that \<^verbatim>\<open>waitpid\<close> stored, without extracting the
  exit status from it. The IF_ZERO node of \<^verbatim>\<open>true\<close> and \<^verbatim>\<open>false\<close> and the IF_NONZERO node
  of \<^verbatim>\<open>false\<close> and \<^verbatim>\<open>false\<close> return 256, although the right child, which ran, returns
  1.
\<close>

theorem spawned_conditional_returns_wait_status:
  "parse_command sys0
     (Some (Command_t (leaf (simple ''true'' None)) (leaf (simple ''false'' None))
        OP_CONDITIONAL_ZERO (Some (simple ''true'' None)))) 0 None proc0
     = Returned 256 (proc0\<lparr>trace := [Fork 1, Waitpid 1]\<rparr>) \<and>
   parse_command sys0
     (Some (Command_t (leaf (simple ''false'' None)) (leaf (simple ''false'' None))
        OP_CONDITIONAL_NZERO (Some (simple ''true'' None)))) 0 None proc0
     = Returned 256 (proc0\<lparr>trace := [Fork 1, Waitpid 1]\<rparr>) \<and>
   parse_command sys0 (leaf (simple ''false'' None)) 0 None (child proc0)
     = Returned 1 (child proc0)"
  by code_simp

subsection \<open>C7: a cd on the left of a conditional\<close>

text \<open>
  Claim C7: when the left branch of a conditional node, IF_ZERO or IF_NONZERO, is a
  \<^verbatim>\<open>cd\<close>, the change of directory is applied in the parent process on every path, also
  when the conditional is evaluated in a spawned child. \<^verbatim>\<open>Conditional_Zero\<close> calls
  \<^verbatim>\<open>shell_cd\<close> in the parent after \<^verbatim>\<open>waitpid\<close>; \<^verbatim>\<open>Conditional_NZero\<close> does not. For a
  node with its \<^verbatim>\<open>scmd\<close> field set and \<^verbatim>\<open>cd /tmp\<close> on the left, the IF_NONZERO node
  leaves the parent in \<^verbatim>\<open>/\<close>, the IF_ZERO node moves it to \<^verbatim>\<open>/tmp\<close>.
\<close>

theorem nzero_child_cd_not_applied:
  "parse_command sys0
     (Some (Command_t (leaf (simple ''cd'' (Some (lit ''/tmp'')))) None
        OP_CONDITIONAL_NZERO (Some (simple ''true'' None)))) 0 None proc0
     = Returned 0 (proc0\<lparr>trace := [Fork 1, Waitpid 1]\<rparr>) \<and>
   parse_command sys0
     (Some (Command_t (leaf (simple ''cd'' (Some (lit ''/tmp'')))) None
        OP_CONDITIONAL_ZERO (Some (simple ''true'' None)))) 0 None proc0
     = Returned 0 (proc0\<lparr>cwd := ''/tmp'', trace := [Fork 1, Waitpid 1]\<rparr>)"
  by code_simp

subsection \<open>C8: the status of a parallel node\<close>




subsection \<open>C9: variable assignment\<close>

text \<open>
  As stated, the claim fails. The value is assembled in a buffer of 100 bytes: a text of
  100 characters is written past its end. And \<^verbatim>\<open>setenv\<close> rejects an empty name; its
  result is not looked at, so the command returns 0 with the environment unchanged.
\<close>

theorem assignment_counterexample:
  "parse_simple sys0 (Some (assignment ''FOO'' (replicate 100 CHR ''a''))) 0 None proc0
     = Undefined \<and>
   parse_simple sys0 (Some (assignment [] ''bar'')) 0 None proc0 = Returned 0 proc0 \<and>
   getenv [] proc0 = None"
  by code_simp

text \<open>
  Claim C9, amended: for every simple command whose verb's first fragment is followed by a
  fragment equal to \<^verbatim>\<open>=\<close>, where the first fragment is a valid variable name (not empty,
  no \<^verbatim>\<open>=\<close> in it) and the resolved concatenation of the remaining fragments is shorter
  than 100 bytes, evaluation sets the variable named by the first fragment to that
  concatenation and returns 0. Nothing else of the process changes: no child is created.
  The verb is arbitrary, so the assignment comes before the built-in and the external
  commands.
\<close>

theorem assignment_sets_variable:
  assumes "verb s = Some v" and "next_part v = Some eq" and "string eq = ''=''"
    and "string v \<noteq> []" and "CHR ''='' \<notin> set (string v)"
    and "length (resolve (env p) (fragments (next_part eq))) < 100"
  shows "parse_simple sys (Some s) level father p =
           Returned 0
             (p\<lparr>env := AList.update (string v)
                          (resolve (env p) (fragments (next_part eq))) (env p)\<rparr>) \<and>
         getenv (string v)
           (p\<lparr>env := AList.update (string v)
                        (resolve (env p) (fragments (next_part eq))) (env p)\<rparr>)
           = Some (resolve (env p) (fragments (next_part eq)))"
  using assms
  by (simp add: parse_simple_def is_assignment_def strcat_parts_resolve setenv_def getenv_def
        update_conv')

text \<open>
  The theorem at \<^verbatim>\<open>exit=bar\<close>: the variable \<^verbatim>\<open>exit\<close> is set and the shell does not
  exit.
\<close>

theorem assignment_sets_variable_witness:
  "parse_simple sys0 (Some (assignment ''exit'' ''bar'')) 0 None proc0 =
     Returned 0 (proc0\<lparr>env := [(''HOME'', ''/home''), (''exit'', ''bar'')]\<rparr>) \<and>
   getenv ''exit'' (proc0\<lparr>env := [(''HOME'', ''/home''), (''exit'', ''bar'')]\<rparr>) = Some ''bar''"
  using assignment_sets_variable
    [of "assignment ''exit'' ''bar''"
        "Word_t ''exit'' False (Some (Word_t ''='' False (Some (lit ''bar'')) None)) None"
        "Word_t ''='' False (Some (lit ''bar'')) None" proc0 sys0 0 None]
  by (simp add: assignment_def lit_def proc0_def resolve_def)

subsection \<open>C10: the target of cd\<close>

text \<open>
  Claim C10: the target of a \<^verbatim>\<open>cd\<close> with a parameter is the literal text of the first
  fragment of the parameter: a variable reference is not substituted and later fragments
  are ignored, unlike redirection targets and argument words, which are resolved fragment
  by fragment with the environment. \<^verbatim>\<open>shell_cd\<close> passes the text of the first fragment to
  \<^verbatim>\<open>chdir\<close>, whatever the \<^verbatim>\<open>expand\<close> flag and the following fragments are, and so does
  the \<^verbatim>\<open>cd\<close> that \<^verbatim>\<open>parse_simple\<close> runs in the original process; \<^verbatim>\<open>getFile\<close> and the
  values of \<^verbatim>\<open>getParameters\<close> are the resolved words (as far as their buffers reach).
\<close>

theorem cd_target_is_first_fragment:
  "shell_cd sys (Some (Word_t str ex np nw)) p =
     (case os_chdir sys p str of None \<Rightarrow> (False, p) | Some d \<Rightarrow> (True, p\<lparr>cwd := d\<rparr>)) \<and>
   (verb s = Some v \<and> string v = ''cd'' \<and> \<not> is_assignment v \<and>
    params s = Some (Word_t str ex np nw) \<and> fork sys p = Some (pid, p1) \<and>
    parse_simple_child sys s v (child p) \<noteq> None \<longrightarrow>
      parse_simple sys (Some s) level father p =
        (case os_chdir sys (waitpid pid p1) str of
           None \<Rightarrow> Returned 1 (waitpid pid p1)
         | Some d \<Rightarrow> Returned 0 ((waitpid pid p1)\<lparr>cwd := d\<rparr>))) \<and>
   getFile p w =
     (if length (resolve (env p) (fragments w)) < 100
      then Some (resolve (env p) (fragments w)) else None) \<and>
   param_values p (Some (Word_t str ex np None)) =
     (if length (resolve (env p) ((str, ex) # fragments np)) < 100
      then Some [resolve (env p) ((str, ex) # fragments np)] else None)"
proof (intro conjI impI)
  show "shell_cd sys (Some (Word_t str ex np nw)) p =
     (case os_chdir sys p str of None \<Rightarrow> (False, p) | Some d \<Rightarrow> (True, p\<lparr>cwd := d\<rparr>))"
    by (rule shell_cd_Some)
next
  assume a: "verb s = Some v \<and> string v = ''cd'' \<and> \<not> is_assignment v \<and>
    params s = Some (Word_t str ex np nw) \<and> fork sys p = Some (pid, p1) \<and>
    parse_simple_child sys s v (child p) \<noteq> None"
  then have c: "parse_simple_child sys s v (child p) = Some 0"
    by (simp add: parse_simple_child_cd)
  show "parse_simple sys (Some s) level father p =
        (case os_chdir sys (waitpid pid p1) str of
           None \<Rightarrow> Returned 1 (waitpid pid p1)
         | Some d \<Rightarrow> Returned 0 ((waitpid pid p1)\<lparr>cwd := d\<rparr>))"
    using a c by (simp add: parse_simple_def shell_cd_Some split: option.splits)
next
  show "getFile p w =
     (if length (resolve (env p) (fragments w)) < 100
      then Some (resolve (env p) (fragments w)) else None)"
    by (rule getFile_resolve)
next
  have "strcat_parts p (Some (Word_t str ex np None)) [] =
     (if length (resolve (env p) ((str, ex) # fragments np)) < 100
      then Some (resolve (env p) ((str, ex) # fragments np)) else None)"
    using strcat_parts_resolve [of "[]" p "Some (Word_t str ex np None)"] by simp
  then show "param_values p (Some (Word_t str ex np None)) =
     (if length (resolve (env p) ((str, ex) # fragments np)) < 100
      then Some [resolve (env p) ((str, ex) # fragments np)] else None)"
    by simp
qed

text \<open>
  The theorem at the word made of \<^verbatim>\<open>/tmp\<close> and the variable \<^verbatim>\<open>HOME\<close>: as the parameter
  of \<^verbatim>\<open>cd\<close> it leads to \<^verbatim>\<open>/tmp\<close>, as a redirection target or an argument it is
  \<^verbatim>\<open>/tmp/home\<close>.
\<close>

theorem cd_target_is_first_fragment_witness:
  "parse_simple sys0 (Some (simple ''cd'' (Some tmp_home))) 0 None proc0 =
     Returned 0 (proc0\<lparr>cwd := ''/tmp'', trace := [Fork 1, Waitpid 1]\<rparr>) \<and>
   shell_cd sys0 (Some tmp_home) proc0 = (True, proc0\<lparr>cwd := ''/tmp''\<rparr>) \<and>
   getFile proc0 (Some tmp_home) = Some ''/tmp/home'' \<and>
   param_values proc0 (Some tmp_home) = Some [''/tmp/home'']"
proof -
  have h: "verb (simple ''cd'' (Some tmp_home)) = Some (lit ''cd'') \<and>
      string (lit ''cd'') = ''cd'' \<and> \<not> is_assignment (lit ''cd'') \<and>
      params (simple ''cd'' (Some tmp_home)) =
        Some (Word_t ''/tmp'' False (Some (Word_t ''HOME'' True None None)) None) \<and>
      fork sys0 proc0 = Some (1, proc0\<lparr>trace := [Fork 1]\<rparr>) \<and>
      parse_simple_child sys0 (simple ''cd'' (Some tmp_home)) (lit ''cd'') (child proc0) \<noteq> None"
    by code_simp
  show ?thesis
    using h cd_target_is_first_fragment
      [where sys = sys0 and str = "''/tmp''" and ex = False
         and np = "Some (Word_t ''HOME'' True None None)" and nw = None and p = proc0
         and s = "simple ''cd'' (Some tmp_home)" and v = "lit ''cd''" and pid = 1
         and ?p1.0 = "proc0\<lparr>trace := [Fork 1]\<rparr>" and level = 0 and father = None
         and w = "Some tmp_home"]
    by (simp add: tmp_home_def sys0_def proc0_def waitpid_def resolve_def)
qed

end
